theory Spec2Isabelle
  imports Complex_Main "HOL-Library.AList" "HOL-Library.Extended_Nat"
begin

section \<open>Data model\<close>

text \<open>
  DOM elements and gesture objects are compared by reference in the source
  (\<^verbatim>\<open>===\<close>, \<^verbatim>\<open>Map\<close> keys), so both carry an identity: an element is its
  identity, a gesture object is an identity together with its read-only name.
  JavaScript numbers are modelled as reals; the pinch handlers, whose quotients feed
  back into later quotients, are also given with every operation rounded as doubles
  round. A quotient with divisor 0 is \<^verbatim>\<open>Infinity\<close> or \<^verbatim>\<open>NaN\<close> in JavaScript and 0 in
  HOL; the only divisor below that is not guarded by the code is the pinch's last scale,
  and every statement that depends on such a quotient assumes it non-zero.
\<close>

type_synonym elem = nat

record GestureRef =
  ident :: nat
  name :: string

subsection \<open>ActiveGesturesRegistry.ts\<close>

record ActiveGestureEntry =
  gesture :: GestureRef
  element :: elem

text \<open>
  \<^verbatim>\<open>Map<HTMLElement, Set<ActiveGestureEntry>>\<close>. Every call of
  \<^verbatim>\<open>registerActiveGesture\<close> builds a fresh entry object, so the set never
  merges two entries: it is a list in insertion order.
\<close>

type_synonym ActiveGesturesRegistry = "elem \<rightharpoonup> ActiveGestureEntry list"

definition sameGesture :: "GestureRef \<Rightarrow> GestureRef \<Rightarrow> bool" where
  "sameGesture a b = (ident a = ident b)"

definition registerActiveGesture ::
  "ActiveGesturesRegistry \<Rightarrow> elem \<Rightarrow> GestureRef \<Rightarrow> ActiveGesturesRegistry" where
  "registerActiveGesture reg el g =
     (let reg1 = (if reg el = None then reg(el \<mapsto> []) else reg);
          entry = \<lparr>gesture = g, element = el\<rparr>
      in case reg1 el of
           None \<Rightarrow> reg1
         | Some elementGestures \<Rightarrow> reg1(el \<mapsto> elementGestures @ [entry]))"

definition unregisterActiveGesture ::
  "ActiveGesturesRegistry \<Rightarrow> elem \<Rightarrow> GestureRef \<Rightarrow> ActiveGesturesRegistry" where
  "unregisterActiveGesture reg el g =
     (case reg el of
        None \<Rightarrow> reg
      | Some elementGestures \<Rightarrow>
          (let remaining = filter (\<lambda>entry. \<not> sameGesture (gesture entry) g) elementGestures
           in if length remaining = 0 then reg(el := None) else reg(el \<mapsto> remaining)))"

text \<open>
  \<^verbatim>\<open>Record<string, boolean>\<close> is a plain object created by \<^verbatim>\<open>{}\<close>: its own properties in
  enumeration order, with \<^verbatim>\<open>Object.prototype\<close> behind them.
  \<^item> Own keys that are array indices (canonical decimal strings up to \<open>2\<^sup>3\<^sup>2 - 2\<close>) come
    first, in ascending numeric order; the other keys follow in insertion order.
  \<^item> \<^verbatim>\<open>obj['__proto__'] = true\<close> goes to the prototype setter, which ignores a value that
    is not an object: no own property is created.
  \<^item> Reading \<^verbatim>\<open>obj[key]\<close> finds the own property or else the inherited one; every property
    of \<^verbatim>\<open>Object.prototype\<close> (and \<^verbatim>\<open>__proto__\<close> itself) is truthy.
\<close>

type_synonym JsRecord = "(string \<times> bool) list"

definition isDigit :: "char \<Rightarrow> bool" where
  "isDigit c = (c \<in> set ''0123456789'')"

definition decimalValue :: "string \<Rightarrow> nat" where
  "decimalValue s = foldl (\<lambda>v c. 10 * v + (of_char c - 48)) 0 s"

definition arrayIndex :: "string \<Rightarrow> nat option" where
  "arrayIndex s =
     (if s \<noteq> [] \<and> list_all isDigit s \<and> (s = ''0'' \<or> hd s \<noteq> CHR ''0'')
         \<and> decimalValue s \<le> 4294967294
      then Some (decimalValue s) else None)"

fun insertIndexed :: "nat \<Rightarrow> string \<Rightarrow> bool \<Rightarrow> JsRecord \<Rightarrow> JsRecord" where
  "insertIndexed n k v [] = [(k, v)]"
| "insertIndexed n k v ((k1, v1) # rest) =
     (case arrayIndex k1 of
        Some m \<Rightarrow> if m < n then (k1, v1) # insertIndexed n k v rest
                  else (k, v) # (k1, v1) # rest
      | None \<Rightarrow> (k, v) # (k1, v1) # rest)"

definition objectSet :: "JsRecord \<Rightarrow> string \<Rightarrow> bool \<Rightarrow> JsRecord" where
  \<comment> \<open>\<^verbatim>\<open>obj[k] = v\<close>\<close>
  "objectSet obj k v =
     (if k = ''__proto__'' then obj
      else if map_of obj k \<noteq> None then AList.update k v obj
      else (case arrayIndex k of
              Some n \<Rightarrow> insertIndexed n k v obj
            | None \<Rightarrow> obj @ [(k, v)]))"

definition objectPrototypeKeys :: "string list" where
  "objectPrototypeKeys =
     [''constructor'', ''__defineGetter__'', ''__defineSetter__'', ''hasOwnProperty'',
      ''__lookupGetter__'', ''__lookupSetter__'', ''isPrototypeOf'', ''propertyIsEnumerable'',
      ''toString'', ''valueOf'', ''__proto__'', ''toLocaleString'']"

definition objectGetTruthy :: "JsRecord \<Rightarrow> string \<Rightarrow> bool" where
  \<comment> \<open>\<^verbatim>\<open>obj[k]\<close> read as a condition\<close>
  "objectGetTruthy obj k =
     (case map_of obj k of Some b \<Rightarrow> b | None \<Rightarrow> k \<in> set objectPrototypeKeys)"

definition getActiveGestures :: "ActiveGesturesRegistry \<Rightarrow> elem \<Rightarrow> JsRecord" where
  "getActiveGestures reg el =
     (case reg el of
        None \<Rightarrow> []
      | Some elementGestures \<Rightarrow>
          fold (\<lambda>entry acc. objectSet acc (name (gesture entry)) True) elementGestures [])"

definition isGestureActive :: "ActiveGesturesRegistry \<Rightarrow> elem \<Rightarrow> GestureRef \<Rightarrow> bool" where
  "isGestureActive reg el g =
     (case reg el of
        None \<Rightarrow> False
      | Some elementGestures \<Rightarrow> list_ex (\<lambda>entry. sameGesture (gesture entry) g) elementGestures)"

definition registry_destroy :: "ActiveGesturesRegistry \<Rightarrow> ActiveGesturesRegistry" where
  "registry_destroy reg = Map.empty"

definition registry_unregisterElement ::
  "ActiveGesturesRegistry \<Rightarrow> elem \<Rightarrow> ActiveGesturesRegistry" where
  "registry_unregisterElement reg el = reg(el := None)"

text \<open>The entries a registry holds for an element (none when the key is absent).\<close>

definition entriesOf :: "ActiveGesturesRegistry \<Rightarrow> elem \<Rightarrow> ActiveGestureEntry list" where
  "entriesOf reg el = (case reg el of None \<Rightarrow> [] | Some elementGestures \<Rightarrow> elementGestures)"

subsection \<open>Pointer events and PointerManager (the pointer tracker)\<close>

text \<open>
  The manager listens to exactly four pointer event types. A \<^verbatim>\<open>PointerEvent\<close> and the
  \<^verbatim>\<open>PointerData\<close> snapshot made from it share their fields; the event carries the
  optional \<^verbatim>\<open>forceReset\<close> marker of \<^verbatim>\<open>InternalEvent\<close> (absent counts as false), the
  snapshot a reference to its source event. A target is an element or \<^verbatim>\<open>null\<close>.
\<close>

datatype EventType = pointerdown | pointermove | pointerup | pointercancel

record PointerFields =
  type :: EventType
  pointerId :: int
  clientX :: real
  clientY :: real
  pageX :: real
  pageY :: real
  target :: "elem option"
  timeStamp :: real
  isPrimary :: bool
  pressure :: real
  width :: real
  height :: real
  pointerType :: string

record PointerEvent = PointerFields +
  forceReset :: bool

record PointerData = PointerFields +
  srcEvent :: PointerEvent

text \<open>\<^verbatim>\<open>Map<number, PointerData>\<close>, in insertion order (\<^verbatim>\<open>set\<close> on a present key keeps its place).\<close>

type_synonym PointerMap = "(int \<times> PointerData) list"

text \<open>
  A handler is a closure over the rest of the program's state \<open>'w\<close>; it reads the pointer
  map and the event it is given.
\<close>

record 'w PointerManager =
  pointers :: PointerMap
  gestureHandlers :: "(PointerMap \<Rightarrow> PointerEvent \<Rightarrow> 'w \<Rightarrow> 'w) list"

definition registerGestureHandler ::
  "'w PointerManager \<Rightarrow> (PointerMap \<Rightarrow> PointerEvent \<Rightarrow> 'w \<Rightarrow> 'w) \<Rightarrow> 'w PointerManager" where
  \<comment> \<open>every handler passed in is a freshly bound function, so the set grows by one\<close>
  "registerGestureHandler pm handler = pm\<lparr>gestureHandlers := gestureHandlers pm @ [handler]\<rparr>"

definition getPointers :: "'w PointerManager \<Rightarrow> PointerMap" where
  "getPointers pm = PointerManager.pointers pm"

definition createPointerData :: "PointerEvent \<Rightarrow> PointerData" where
  "createPointerData event =
     \<lparr>type = type event, pointerId = pointerId event,
      clientX = clientX event, clientY = clientY event,
      pageX = pageX event, pageY = pageY event,
      target = PointerFields.target event, timeStamp = PointerFields.timeStamp event,
      isPrimary = isPrimary event, pressure = pressure event,
      width = width event, height = height event,
      pointerType = pointerType event, srcEvent = event\<rparr>"

definition notifyHandlers :: "'w PointerManager \<Rightarrow> PointerEvent \<Rightarrow> 'w \<Rightarrow> 'w" where
  "notifyHandlers pm event w =
     fold (\<lambda>handler. handler (PointerManager.pointers pm) event) (gestureHandlers pm) w"

text \<open>Pointer capture and release are best-effort host calls with no effect on this state.\<close>

definition handlePointerEvent ::
  "'w PointerManager \<Rightarrow> PointerEvent \<Rightarrow> 'w \<Rightarrow> 'w PointerManager \<times> 'w" where
  "handlePointerEvent pm event w =
     (if type event = pointerdown \<or> type event = pointermove then
        (let pm1 = pm\<lparr>PointerManager.pointers :=
                      AList.update (pointerId event) (createPointerData event)
                        (PointerManager.pointers pm)\<rparr>
         in (pm1, notifyHandlers pm1 event w))
      else if type event = pointerup \<or> type event = pointercancel then
        (let pm1 = pm\<lparr>PointerManager.pointers :=
                      AList.update (pointerId event) (createPointerData event)
                        (PointerManager.pointers pm)\<rparr>;
             w1 = notifyHandlers pm1 event w
         in (pm1\<lparr>PointerManager.pointers :=
                  AList.delete (pointerId event) (PointerManager.pointers pm1)\<rparr>, w1))
      else (pm, notifyHandlers pm event w))"

text \<open>
  \<^verbatim>\<open>new PointerEvent('pointercancel', {bubbles: true, cancelable: true})\<close>: every other
  attribute has its default, the time stamp is the creation time \<open>now\<close>, and an event that
  was never dispatched has no target.
\<close>

definition newCancelEvent :: "real \<Rightarrow> PointerEvent" where
  "newCancelEvent now =
     \<lparr>type = pointercancel, pointerId = 0, clientX = 0, clientY = 0, pageX = 0, pageY = 0,
      target = None, timeStamp = now, isPrimary = False, pressure = 0, width = 1, height = 1,
      pointerType = [], forceReset = False\<rparr>"

definition handleInterruptEvents ::
  "real \<Rightarrow> 'w PointerManager \<Rightarrow> 'w \<Rightarrow> 'w PointerManager \<times> 'w" where
  "handleInterruptEvents now pm w =
     (let cancelEvent0 = (newCancelEvent now)\<lparr>forceReset := True\<rparr>;
          (cancelEvent, pm1) =
            (case PointerManager.pointers pm of
               [] \<Rightarrow> (cancelEvent0, pm)
             | (firstId, firstPointer) # rest \<Rightarrow>
                 (cancelEvent0\<lparr>clientX := clientX firstPointer, clientY := clientY firstPointer,
                              pointerId := pointerId firstPointer,
                              pointerType := pointerType firstPointer\<rparr>,
                  pm\<lparr>PointerManager.pointers :=
                       map (\<lambda>(k, p). (k, p\<lparr>type := pointercancel\<rparr>))
                         (PointerManager.pointers pm)\<rparr>));
          w1 = notifyHandlers pm1 cancelEvent w
      in (pm1\<lparr>PointerManager.pointers := []\<rparr>, w1))"

subsection \<open>What the gestures use from outside\<close>

datatype Direction = up | down | left | right

text \<open>
  \<^verbatim>\<open>utils\<close> (\<^verbatim>\<open>calculateCentroid\<close>, \<^verbatim>\<open>calculateAverageDistance\<close>, \<^verbatim>\<open>getDirection\<close>,
  \<^verbatim>\<open>isDirectionAllowed\<close>) and the DOM tree (\<^verbatim>\<open>Node.contains\<close>) lie outside the sources
  verified here: the gestures take them as parameters. A point \<^verbatim>\<open>{x, y}\<close> is a pair.
\<close>

type_synonym point = "real \<times> real"

record Externals =
  calculateCentroid :: "PointerData list \<Rightarrow> point"
  calculateAverageDistance :: "PointerData list \<Rightarrow> real"
  getDirection :: "point \<Rightarrow> point \<Rightarrow> Direction option"
  isDirectionAllowed :: "Direction option \<Rightarrow> Direction list \<Rightarrow> bool"
  contains :: "elem \<Rightarrow> elem \<Rightarrow> bool"

definition containsTarget :: "Externals \<Rightarrow> elem \<Rightarrow> elem option \<Rightarrow> bool" where
  \<comment> \<open>\<^verbatim>\<open>element.contains(target as Node)\<close>; \<^verbatim>\<open>contains(null)\<close> is false\<close>
  "containsTarget ext el t = (case t of None \<Rightarrow> False | Some n \<Rightarrow> contains ext el n)"

definition relevantTo :: "Externals \<Rightarrow> elem \<Rightarrow> PointerData list \<Rightarrow> PointerData list" where
  "relevantTo ext targetElement pointersArray =
     filter (\<lambda>pointer. Some targetElement = PointerFields.target pointer
                      \<or> containsTarget ext targetElement (PointerFields.target pointer))
       pointersArray"

definition stillPressed :: "PointerData list \<Rightarrow> PointerData list" where
  \<comment> \<open>\<^verbatim>\<open>filter(p => p.type !== 'pointerup' && p.type !== 'pointercancel')\<close>\<close>
  "stillPressed ps = filter (\<lambda>p. type p \<noteq> pointerup \<and> type p \<noteq> pointercancel) ps"

datatype GesturePhase = Start | Ongoing | End | Cancel

text \<open>
  Modelled from the spec: \<^verbatim>\<open>createEventName\<close> of \<^verbatim>\<open>utils\<close> lies outside the sources
  verified here; the output boundary names the notifications \<^verbatim>\<open><name>Start\<close>, \<^verbatim>\<open><name>\<close>,
  \<^verbatim>\<open><name>End\<close>, \<^verbatim>\<open><name>Cancel\<close>.
\<close>

definition createEventName :: "string \<Rightarrow> GesturePhase \<Rightarrow> string" where
  "createEventName gestureName ph =
     gestureName @ (case ph of Start \<Rightarrow> ''Start'' | Ongoing \<Rightarrow> [] | End \<Rightarrow> ''End''
                             | Cancel \<Rightarrow> ''Cancel'')"

record GestureEventData =
  centroid :: point
  target :: "elem option"
  srcEvent :: PointerEvent
  phase :: GesturePhase
  pointers :: "PointerData list"
  timeStamp :: real

record PanGestureEventData = GestureEventData +
  deltaX :: real
  deltaY :: real
  totalDeltaX :: real
  totalDeltaY :: real
  direction :: "Direction option"
  velocityX :: real
  velocityY :: real
  velocity :: real

record PinchGestureEventData = GestureEventData +
  activeGestures :: "(string \<times> bool) list"
  scale :: real
  totalScale :: real
  distance :: real
  velocity :: real

text \<open>A dispatched \<^verbatim>\<open>CustomEvent\<close>: the element it is dispatched on, its name, its detail.\<close>

datatype CustomEvent =
    PanEvent elem string PanGestureEventData
  | PinchEvent elem string PinchGestureEventData

fun eventPhase :: "CustomEvent \<Rightarrow> GesturePhase" where
  "eventPhase (PanEvent el n d) = phase d"
| "eventPhase (PinchEvent el n d) = phase d"

text \<open>
  The fields every gesture has from its base classes. \<^verbatim>\<open>Gesture\<close>'s constructor stores
  \<^verbatim>\<open>preventDefault\<close>, \<^verbatim>\<open>stopPropagation\<close> and \<^verbatim>\<open>preventIf\<close> for every gesture, whether
  or not the variant reads them. \<^verbatim>\<open>threshold\<close>, \<^verbatim>\<open>minPointers\<close> and \<^verbatim>\<open>maxPointers\<close> belong
  to \<^verbatim>\<open>PointerGesture\<close>, which lies outside the sources verified here; \<^verbatim>\<open>maxPointers\<close>
  may be \<^verbatim>\<open>Infinity\<close>.
\<close>

record PointerGesture = GestureRef +
  preventDefault :: bool
  stopPropagation :: bool
  preventIf :: "string list"
  threshold :: real
  minPointers :: nat
  maxPointers :: enat

subsection \<open>PanGesture (one instance per target)\<close>

record PanGestureState =
  active :: bool
  startPointers :: PointerMap
  startCentroid :: "point option"
  lastCentroid :: "point option"
  movementThresholdReached :: bool
  totalDeltaX :: real
  totalDeltaY :: real

record PanGesture = PointerGesture +
  direction :: "Direction list"
  element :: "elem option"
  state :: PanGestureState

definition pan_initialState :: PanGestureState where
  "pan_initialState =
     \<lparr>active = False, startPointers = [], startCentroid = None, lastCentroid = None,
      movementThresholdReached = False, totalDeltaX = 0, totalDeltaY = 0\<rparr>"

definition pan_resetState :: "PanGesture \<Rightarrow> PanGesture" where
  "pan_resetState g = g\<lparr>PanGesture.state := pan_initialState\<rparr>"

definition pan_resetActiveState :: "PanGesture \<Rightarrow> PanGesture" where
  "pan_resetActiveState g =
     g\<lparr>PanGesture.state := (PanGesture.state g)
          \<lparr>active := False, startPointers := [], startCentroid := None, lastCentroid := None,
           movementThresholdReached := False\<rparr>\<rparr>"

definition pan_destroy :: "PanGesture \<Rightarrow> PanGesture" where
  "pan_destroy g = pan_resetState g"

definition pan_getTargetElement :: "Externals \<Rightarrow> PanGesture \<Rightarrow> PointerEvent \<Rightarrow> elem option" where
  "pan_getTargetElement ext g event =
     (case PanGesture.element g of
        None \<Rightarrow> None
      | Some el \<Rightarrow>
          if Some el = PointerFields.target event \<or> containsTarget ext el (PointerFields.target event)
          then Some el else None)"

definition emitPanEvent ::
  "Externals \<Rightarrow> PanGesture \<Rightarrow> elem \<Rightarrow> GesturePhase \<Rightarrow> PointerData list \<Rightarrow> PointerEvent \<Rightarrow> point
     \<Rightarrow> CustomEvent list" where
  "emitPanEvent ext g el ph ptrs event currentCentroid =
     (case startCentroid (PanGesture.state g) of
        None \<Rightarrow> []
      | Some sc \<Rightarrow>
          (let dX = fst currentCentroid - fst sc;
               dY = snd currentCentroid - snd sc;
               dir = getDirection ext sc currentCentroid;
               timeElapsed =
                 (case startPointers (PanGesture.state g) of
                    [] \<Rightarrow> 0
                  | (firstId, firstPointer) # rest \<Rightarrow>
                      (PointerFields.timeStamp event - PointerFields.timeStamp firstPointer) / 1000);
               vX = (if timeElapsed > 0 then dX / timeElapsed else 0);
               vY = (if timeElapsed > 0 then dY / timeElapsed else 0)
           in [PanEvent el (createEventName (name g) ph)
                 \<lparr>centroid = currentCentroid, target = PointerFields.target event,
                  srcEvent = event, phase = ph, pointers = ptrs,
                  timeStamp = PointerFields.timeStamp event,
                  deltaX = dX, deltaY = dY,
                  totalDeltaX = PanGestureState.totalDeltaX (PanGesture.state g),
                  totalDeltaY = PanGestureState.totalDeltaY (PanGesture.state g),
                  direction = dir, velocityX = vX, velocityY = vY,
                  velocity = sqrt (vX * vX + vY * vY)\<rparr>]))"

definition pan_cancel ::
  "Externals \<Rightarrow> PanGesture \<Rightarrow> elem \<Rightarrow> PointerData list \<Rightarrow> PointerEvent
     \<Rightarrow> PanGesture \<times> CustomEvent list" where
  "pan_cancel ext g el ptrs event =
     (let out = (case (active (PanGesture.state g), startCentroid (PanGesture.state g),
                       lastCentroid (PanGesture.state g)) of
                   (True, Some sc, Some lc) \<Rightarrow> emitPanEvent ext g el Cancel ptrs event lc
                 | _ \<Rightarrow> [])
      in (pan_resetState g, out))"

definition pan_forceReset ::
  "Externals \<Rightarrow> PanGesture \<Rightarrow> elem \<Rightarrow> PointerMap \<Rightarrow> PointerEvent
     \<Rightarrow> PanGesture \<times> CustomEvent list" where
  \<comment> \<open>the branch taken on \<^verbatim>\<open>event.forceReset && this.element\<close>\<close>
  "pan_forceReset ext g el ptrMap event =
     (if active (PanGesture.state g) then
        (let relevantPointers = map snd ptrMap;
             out = (case (startCentroid (PanGesture.state g), lastCentroid (PanGesture.state g)) of
                      (Some sc, Some lc) \<Rightarrow>
                        emitPanEvent ext g el Cancel relevantPointers event lc
                    | _ \<Rightarrow> [])
         in (pan_resetActiveState g, out))
      else (g, []))"

definition pan_onPointerDown ::
  "Externals \<Rightarrow> PanGesture \<Rightarrow> PointerData list \<Rightarrow> PanGesture \<times> CustomEvent list" where
  "pan_onPointerDown ext g relevantPointers =
     (if \<not> active (PanGesture.state g) \<and> startCentroid (PanGesture.state g) = None then
        (let c = calculateCentroid ext relevantPointers
         in (g\<lparr>PanGesture.state := (PanGesture.state g)
                 \<lparr>startPointers :=
                    fold (\<lambda>pointer m. AList.update (pointerId pointer) pointer m)
                      relevantPointers (startPointers (PanGesture.state g)),
                  startCentroid := Some c, lastCentroid := Some c\<rparr>\<rparr>, []))
      else (g, []))"

definition pan_onPointerMove ::
  "Externals \<Rightarrow> PanGesture \<Rightarrow> elem \<Rightarrow> PointerData list \<Rightarrow> PointerEvent
     \<Rightarrow> PanGesture \<times> CustomEvent list" where
  "pan_onPointerMove ext g targetElement relevantPointers event =
     (case startCentroid (PanGesture.state g) of
        None \<Rightarrow> (g, [])
      | Some sc \<Rightarrow>
          if length relevantPointers \<ge> minPointers g then
            (let currentCentroid = calculateCentroid ext relevantPointers;
                 dX = fst currentCentroid - fst sc;
                 dY = snd currentCentroid - snd sc;
                 dist = sqrt (dX * dX + dY * dY);
                 moveDirection = getDirection ext sc currentCentroid;
                 st = PanGesture.state g;
                 (g1, out) =
                   (if \<not> movementThresholdReached st \<and> dist \<ge> threshold g
                       \<and> isDirectionAllowed ext moveDirection (PanGesture.direction g) then
                      (let g' = g\<lparr>PanGesture.state :=
                                    st\<lparr>movementThresholdReached := True, active := True\<rparr>\<rparr>
                       in (g', emitPanEvent ext g' targetElement Start relevantPointers event
                                 currentCentroid))
                    else if movementThresholdReached st \<and> active st then
                      (let lastDeltaX = (case lastCentroid st of
                                           Some l \<Rightarrow> fst currentCentroid - fst l | None \<Rightarrow> 0);
                           lastDeltaY = (case lastCentroid st of
                                           Some l \<Rightarrow> snd currentCentroid - snd l | None \<Rightarrow> 0);
                           g' = g\<lparr>PanGesture.state :=
                                    st\<lparr>PanGestureState.totalDeltaX :=
                                         PanGestureState.totalDeltaX st + lastDeltaX,
                                       PanGestureState.totalDeltaY :=
                                         PanGestureState.totalDeltaY st + lastDeltaY\<rparr>\<rparr>
                       in (g', emitPanEvent ext g' targetElement Ongoing relevantPointers event
                                 currentCentroid))
                    else (g, []))
             in (g1\<lparr>PanGesture.state := (PanGesture.state g1)
                       \<lparr>lastCentroid := Some currentCentroid\<rparr>\<rparr>, out))
          else (g, []))"

definition pan_onPointerUp ::
  "Externals \<Rightarrow> PanGesture \<Rightarrow> elem \<Rightarrow> PointerData list \<Rightarrow> PointerEvent
     \<Rightarrow> PanGesture \<times> CustomEvent list" where
  \<comment> \<open>\<^verbatim>\<open>case 'pointerup': case 'pointercancel':\<close>\<close>
  "pan_onPointerUp ext g targetElement relevantPointers event =
     (let st = PanGesture.state g in
      if active st \<and> movementThresholdReached st then
        (if length (stillPressed relevantPointers) = 0 then
           (let out = (case lastCentroid st of
                         Some l \<Rightarrow> emitPanEvent ext g targetElement End relevantPointers event l
                       | None \<Rightarrow>
                           (case startCentroid st of
                              Some s \<Rightarrow>
                                emitPanEvent ext g targetElement End relevantPointers event s
                            | None \<Rightarrow> []))
            in (pan_resetActiveState g, out))
         else (g, []))
      else (pan_resetActiveState g, []))"

definition pan_handlePointerEvent ::
  "Externals \<Rightarrow> PanGesture \<Rightarrow> PointerMap \<Rightarrow> PointerEvent \<Rightarrow> PanGesture \<times> CustomEvent list" where
  "pan_handlePointerEvent ext g ptrMap event =
     (case (forceReset event, PanGesture.element g) of
        (True, Some el) \<Rightarrow> pan_forceReset ext g el ptrMap event
      | _ \<Rightarrow>
         (let pointersArray = map snd ptrMap in
          case pan_getTargetElement ext g event of
            None \<Rightarrow> (g, [])
          | Some targetElement \<Rightarrow>
              (let relevantPointers = relevantTo ext targetElement pointersArray in
               if length relevantPointers < minPointers g
                  \<or> enat (length relevantPointers) > maxPointers g then
                 (if active (PanGesture.state g)
                  then pan_cancel ext g targetElement relevantPointers event
                  else (g, []))
               else
                 (case type event of
                    pointerdown \<Rightarrow> pan_onPointerDown ext g relevantPointers
                  | pointermove \<Rightarrow> pan_onPointerMove ext g targetElement relevantPointers event
                  | pointerup \<Rightarrow> pan_onPointerUp ext g targetElement relevantPointers event
                  | pointercancel \<Rightarrow>
                      pan_onPointerUp ext g targetElement relevantPointers event))))"

text \<open>An active pan has a start centroid and a last centroid.\<close>

definition pan_inv :: "PanGesture \<Rightarrow> bool" where
  "pan_inv g = (active (PanGesture.state g) \<longrightarrow>
                  startCentroid (PanGesture.state g) \<noteq> None
                  \<and> lastCentroid (PanGesture.state g) \<noteq> None)"

subsection \<open>PinchGesture\<close>

record PinchGestureState =
  startDistance :: real
  lastDistance :: real
  lastScale :: real
  lastTime :: real
  velocity :: real
  totalScale :: real

record PinchGesture = PointerGesture +
  element :: elem
  state :: PinchGestureState

definition pinch_initialState :: PinchGestureState where
  "pinch_initialState =
     \<lparr>startDistance = 0, lastDistance = 0, lastScale = 1, lastTime = 0, velocity = 0,
      totalScale = 1\<rparr>"

definition thisRef :: "'a GestureRef_scheme \<Rightarrow> GestureRef" where
  \<comment> \<open>the object \<^verbatim>\<open>this\<close> as the registry sees it\<close>
  "thisRef g = \<lparr>ident = ident g, name = name g\<rparr>"

text \<open>
  \<^verbatim>\<open>Gesture.isActive\<close> has no field of its own: the getter asks the registry, the setter
  registers or unregisters \<^verbatim>\<open>this\<close> there.
\<close>

definition isActive :: "PinchGesture \<Rightarrow> ActiveGesturesRegistry \<Rightarrow> bool" where
  "isActive g reg = isGestureActive reg (PinchGesture.element g) (thisRef g)"

definition set_isActive ::
  "PinchGesture \<Rightarrow> bool \<Rightarrow> ActiveGesturesRegistry \<Rightarrow> ActiveGesturesRegistry" where
  "set_isActive g b reg =
     (if b then registerActiveGesture reg (PinchGesture.element g) (thisRef g)
      else unregisterActiveGesture reg (PinchGesture.element g) (thisRef g))"

definition pinch_getTargetElement ::
  "Externals \<Rightarrow> PinchGesture \<Rightarrow> PointerEvent \<Rightarrow> elem option" where
  "pinch_getTargetElement ext g event =
     (if Some (PinchGesture.element g) = PointerFields.target event
         \<or> containsTarget ext (PinchGesture.element g) (PointerFields.target event)
      then Some (PinchGesture.element g) else None)"

definition shouldPreventGesture :: "PinchGesture \<Rightarrow> ActiveGesturesRegistry \<Rightarrow> elem \<Rightarrow> bool" where
  "shouldPreventGesture g reg el =
     (if length (preventIf g) = 0 then False
      else (let activeNames = getActiveGestures reg el
            in list_ex (\<lambda>gestureName. objectGetTruthy activeNames gestureName)
                 (preventIf g)))"

definition pinch_resetState ::
  "PinchGesture \<Rightarrow> ActiveGesturesRegistry \<Rightarrow> PinchGesture \<times> ActiveGesturesRegistry" where
  "pinch_resetState g reg =
     (g\<lparr>PinchGesture.state := (PinchGesture.state g)
          \<lparr>startDistance := 0, lastDistance := 0, lastScale := 1, lastTime := 0,
           PinchGestureState.velocity := 0\<rparr>\<rparr>,
      set_isActive g False reg)"

definition pinch_destroy ::
  "PinchGesture \<Rightarrow> ActiveGesturesRegistry \<Rightarrow> PinchGesture \<times> ActiveGesturesRegistry" where
  "pinch_destroy g reg = pinch_resetState g reg"

text \<open>
  \<^verbatim>\<open>event.preventDefault()\<close> and \<^verbatim>\<open>event.stopPropagation()\<close> act on the host's event only.
\<close>

definition emitPinchEvent ::
  "Externals \<Rightarrow> PinchGesture \<Rightarrow> ActiveGesturesRegistry \<Rightarrow> elem \<Rightarrow> GesturePhase
     \<Rightarrow> PointerData list \<Rightarrow> PointerEvent \<Rightarrow> CustomEvent list" where
  "emitPinchEvent ext g reg el ph ptrs event =
     [PinchEvent el (createEventName (name g) ph)
        \<lparr>centroid = calculateCentroid ext ptrs, target = PointerFields.target event,
         srcEvent = event, phase = ph, pointers = ptrs,
         timeStamp = PointerFields.timeStamp event,
         activeGestures = getActiveGestures reg el,
         scale = lastScale (PinchGesture.state g),
         totalScale = PinchGestureState.totalScale (PinchGesture.state g),
         distance = lastDistance (PinchGesture.state g),
         velocity = PinchGestureState.velocity (PinchGesture.state g)\<rparr>]"

definition pinch_onPointerDown ::
  "Externals \<Rightarrow> PinchGesture \<Rightarrow> ActiveGesturesRegistry \<Rightarrow> elem \<Rightarrow> PointerData list
     \<Rightarrow> PointerEvent \<Rightarrow> (PinchGesture \<times> ActiveGesturesRegistry) \<times> CustomEvent list" where
  "pinch_onPointerDown ext g reg targetElement relevantPointers event =
     (if length relevantPointers \<ge> 2 \<and> \<not> isActive g reg then
        (let initialDistance = calculateAverageDistance ext relevantPointers;
             g1 = g\<lparr>PinchGesture.state := (PinchGesture.state g)
                      \<lparr>startDistance := initialDistance, lastDistance := initialDistance,
                       lastTime := PointerFields.timeStamp event\<rparr>\<rparr>;
             reg1 = set_isActive g1 True reg
         in ((g1, reg1), emitPinchEvent ext g1 reg1 targetElement Start relevantPointers event))
      else ((g, reg), []))"

definition pinch_onPointerMove ::
  "Externals \<Rightarrow> PinchGesture \<Rightarrow> ActiveGesturesRegistry \<Rightarrow> elem \<Rightarrow> PointerData list
     \<Rightarrow> PointerEvent \<Rightarrow> (PinchGesture \<times> ActiveGesturesRegistry) \<times> CustomEvent list" where
  "pinch_onPointerMove ext g reg targetElement relevantPointers event =
     (let st = PinchGesture.state g in
      if isActive g reg \<and> startDistance st \<noteq> 0 \<and> length relevantPointers \<ge> minPointers g then
        (let currentDistance = calculateAverageDistance ext relevantPointers;
             scl = (if startDistance st \<noteq> 0 then currentDistance / startDistance st else 1);
             scaleChange = scl / lastScale st;
             total = PinchGestureState.totalScale st * scaleChange;
             deltaTime = (PointerFields.timeStamp event - lastTime st) / 1000;
             vel = (if deltaTime > 0 \<and> lastDistance st \<noteq> 0
                    then (currentDistance - lastDistance st) / deltaTime
                    else PinchGestureState.velocity st);
             g1 = g\<lparr>PinchGesture.state :=
                      st\<lparr>PinchGestureState.totalScale := total,
                         PinchGestureState.velocity := vel,
                         lastDistance := currentDistance, lastScale := scl,
                         lastTime := PointerFields.timeStamp event\<rparr>\<rparr>
         in ((g1, reg), emitPinchEvent ext g1 reg targetElement Ongoing relevantPointers event))
      else ((g, reg), []))"

definition pinch_onPointerUp ::
  "Externals \<Rightarrow> PinchGesture \<Rightarrow> ActiveGesturesRegistry \<Rightarrow> elem \<Rightarrow> PointerData list
     \<Rightarrow> PointerEvent \<Rightarrow> (PinchGesture \<times> ActiveGesturesRegistry) \<times> CustomEvent list" where
  \<comment> \<open>\<^verbatim>\<open>case 'pointerup': case 'pointercancel':\<close>\<close>
  "pinch_onPointerUp ext g reg targetElement relevantPointers event =
     (if isActive g reg then
        (let remainingPointers = stillPressed relevantPointers in
         if length remainingPointers < minPointers g then
           (let out = emitPinchEvent ext g reg targetElement
                        (if type event = pointercancel then Cancel else End)
                        relevantPointers event
            in (pinch_resetState g reg, out))
         else if length remainingPointers \<ge> 2 then
           (let newDistance = calculateAverageDistance ext remainingPointers
            in ((g\<lparr>PinchGesture.state := (PinchGesture.state g)
                     \<lparr>startDistance := newDistance / lastScale (PinchGesture.state g)\<rparr>\<rparr>, reg),
                []))
         else ((g, reg), []))
      else ((g, reg), []))"

definition pinch_handlePointerEvent ::
  "Externals \<Rightarrow> PinchGesture \<Rightarrow> ActiveGesturesRegistry \<Rightarrow> PointerMap \<Rightarrow> PointerEvent
     \<Rightarrow> (PinchGesture \<times> ActiveGesturesRegistry) \<times> CustomEvent list" where
  "pinch_handlePointerEvent ext g reg ptrMap event =
     (let pointersArray = map snd ptrMap in
      case pinch_getTargetElement ext g event of
        None \<Rightarrow> ((g, reg), [])
      | Some targetElement \<Rightarrow>
          if shouldPreventGesture g reg targetElement then
            (if isActive g reg then
               (let out = emitPinchEvent ext g reg targetElement Cancel pointersArray event
                in (pinch_resetState g reg, out))
             else ((g, reg), []))
          else
            (let relevantPointers = relevantTo ext targetElement pointersArray in
             case type event of
               pointerdown \<Rightarrow> pinch_onPointerDown ext g reg targetElement relevantPointers event
             | pointermove \<Rightarrow> pinch_onPointerMove ext g reg targetElement relevantPointers event
             | pointerup \<Rightarrow> pinch_onPointerUp ext g reg targetElement relevantPointers event
             | pointercancel \<Rightarrow>
                 pinch_onPointerUp ext g reg targetElement relevantPointers event))"

subsection \<open>Gesture objects bound to the pointer manager\<close>

text \<open>
  The gesture objects live in a store keyed by object identity; the rest of the program's
  state is that store, the registry singleton and the events dispatched so far.
\<close>

datatype GestureObject = PanObject PanGesture | PinchObject PinchGesture

record World =
  registry :: ActiveGesturesRegistry
  objects :: "nat \<rightharpoonup> GestureObject"
  dispatched :: "CustomEvent list"

text \<open>
  Modelled from the spec: \<^verbatim>\<open>PointerGesture.init\<close> lies outside the sources verified here.
  Registering a gesture on a target subscribes the instance to the pointer tracker; the
  subscribed handler is the instance's own \<^verbatim>\<open>handlePointerEvent\<close>.
\<close>

definition boundHandler :: "Externals \<Rightarrow> nat \<Rightarrow> PointerMap \<Rightarrow> PointerEvent \<Rightarrow> World \<Rightarrow> World" where
  "boundHandler ext oid ptrMap event w =
     (case objects w oid of
        None \<Rightarrow> w
      | Some (PanObject g) \<Rightarrow>
          (let (g1, out) = pan_handlePointerEvent ext g ptrMap event
           in w\<lparr>objects := (objects w)(oid \<mapsto> PanObject g1), dispatched := dispatched w @ out\<rparr>)
      | Some (PinchObject g) \<Rightarrow>
          (let ((g1, reg1), out) = pinch_handlePointerEvent ext g (registry w) ptrMap event
           in w\<lparr>registry := reg1, objects := (objects w)(oid \<mapsto> PinchObject g1),
                dispatched := dispatched w @ out\<rparr>))"

record System =
  manager :: "World PointerManager"
  world :: World

datatype Input = Pointer PointerEvent | Interrupt real

definition system_step :: "Input \<Rightarrow> System \<Rightarrow> System" where
  "system_step i s =
     (case i of
        Pointer event \<Rightarrow>
          (let (pm, w) = handlePointerEvent (manager s) event (world s)
           in \<lparr>manager = pm, world = w\<rparr>)
      | Interrupt now \<Rightarrow>
          (let (pm, w) = handleInterruptEvents now (manager s) (world s)
           in \<lparr>manager = pm, world = w\<rparr>))"

definition system_run :: "Input list \<Rightarrow> System \<Rightarrow> System" where
  "system_run inputs s = fold system_step inputs s"

subsection \<open>GestureManager.ts\<close>

text \<open>
  \<^verbatim>\<open>elementGestureMap: Map<HTMLElement, Map<string, Gesture>>\<close>; the inner map holds
  the identities of the gesture objects. Destroying a gesture resets its state; what
  \<^verbatim>\<open>PointerGesture.destroy\<close> does to the subscription lies outside the sources verified
  here and is left out.
\<close>

record GestureManager =
  elementGestureMap :: "elem \<rightharpoonup> (string \<times> nat) list"

definition destroyObject :: "nat \<Rightarrow> World \<Rightarrow> World" where
  \<comment> \<open>\<^verbatim>\<open>gesture.destroy()\<close>, dispatched on the variant\<close>
  "destroyObject oid w =
     (case objects w oid of
        None \<Rightarrow> w
      | Some (PanObject g) \<Rightarrow> w\<lparr>objects := (objects w)(oid \<mapsto> PanObject (pan_destroy g))\<rparr>
      | Some (PinchObject g) \<Rightarrow>
          (let (g1, reg1) = pinch_destroy g (registry w)
           in w\<lparr>registry := reg1, objects := (objects w)(oid \<mapsto> PinchObject g1)\<rparr>))"

definition unregisterElement ::
  "GestureManager \<Rightarrow> World \<Rightarrow> string \<Rightarrow> elem \<Rightarrow> bool \<times> GestureManager \<times> World" where
  "unregisterElement gm w gestureName el =
     (case elementGestureMap gm el of
        None \<Rightarrow> (False, gm, w)
      | Some elementGestures \<Rightarrow>
          (case map_of elementGestures gestureName of
             None \<Rightarrow> (False, gm, w)
           | Some oid \<Rightarrow>
               (let w1 = destroyObject oid w;
                    elementGestures1 = AList.delete gestureName elementGestures;
                    w2 = w1\<lparr>registry := registry_unregisterElement (registry w1) el\<rparr>;
                    gm1 = (if length elementGestures1 = 0
                           then gm\<lparr>elementGestureMap := (elementGestureMap gm)(el := None)\<rparr>
                           else gm\<lparr>elementGestureMap :=
                                     (elementGestureMap gm)(el \<mapsto> elementGestures1)\<rparr>)
                in (True, gm1, w2))))"

subsection \<open>The utilities as the specification describes them\<close>

text \<open>
  Modelled from the spec: \<^verbatim>\<open>utils\<close> lies outside the sources verified here. The centroid is
  the arithmetic mean position of a set of pointers; the inter-pointer spread is the mean
  distance between two pointers of the set; the dominant direction is that of the larger
  absolute axis (ties and zero give none), and a direction is allowed when it is in the
  allowed set. What they give on no pointers at all is not described, and no statement
  below depends on it. The DOM used for concrete runs is flat: an element contains itself
  only.
\<close>

definition spec_calculateCentroid :: "PointerData list \<Rightarrow> point" where
  "spec_calculateCentroid ps =
     (if ps = [] then (0, 0)
      else (sum_list (map clientX ps) / real (length ps),
            sum_list (map clientY ps) / real (length ps)))"

fun pairDistances :: "PointerData list \<Rightarrow> real list" where
  "pairDistances [] = []"
| "pairDistances (p # ps) =
     map (\<lambda>q. sqrt ((clientX q - clientX p) * (clientX q - clientX p)
                   + (clientY q - clientY p) * (clientY q - clientY p))) ps
     @ pairDistances ps"

definition spec_calculateAverageDistance :: "PointerData list \<Rightarrow> real" where
  "spec_calculateAverageDistance ps =
     (if length ps < 2 then 0
      else sum_list (pairDistances ps) / real (length (pairDistances ps)))"

definition spec_getDirection :: "point \<Rightarrow> point \<Rightarrow> Direction option" where
  "spec_getDirection previous current =
     (let dX = fst current - fst previous; dY = snd current - snd previous in
      if \<bar>dX\<bar> > \<bar>dY\<bar> then Some (if dX > 0 then right else left)
      else if \<bar>dY\<bar> > \<bar>dX\<bar> then Some (if dY > 0 then down else up)
      else None)"

definition spec_isDirectionAllowed :: "Direction option \<Rightarrow> Direction list \<Rightarrow> bool" where
  "spec_isDirectionAllowed d allowed =
     (case d of None \<Rightarrow> False | Some dir \<Rightarrow> dir \<in> set allowed)"

definition specExternals :: Externals where
  "specExternals =
     \<lparr>calculateCentroid = spec_calculateCentroid,
      calculateAverageDistance = spec_calculateAverageDistance,
      getDirection = spec_getDirection,
      isDirectionAllowed = spec_isDirectionAllowed,
      contains = (\<lambda>a b. a = b)\<rparr>"


subsection \<open>Concrete inputs\<close>

text \<open>
  A handler that only records its call, a touch event with the given type, pointer id,
  position, target and time, and gesture instances with the given options in their
  initial state.
\<close>

definition recorder :: "nat \<Rightarrow> PointerMap \<Rightarrow> PointerEvent \<Rightarrow> (nat \<times> PointerMap \<times> PointerEvent) list
    \<Rightarrow> (nat \<times> PointerMap \<times> PointerEvent) list" where
  "recorder i ptrMap event calls = calls @ [(i, ptrMap, event)]"

definition touchEvent :: "EventType \<Rightarrow> int \<Rightarrow> real \<Rightarrow> real \<Rightarrow> elem \<Rightarrow> real \<Rightarrow> PointerEvent" where
  "touchEvent ty pid x y tgt t =
     \<lparr>type = ty, pointerId = pid, clientX = x, clientY = y, pageX = x, pageY = y,
      PointerFields.target = Some tgt, PointerFields.timeStamp = t, isPrimary = False, pressure = 1/2,
      width = 1, height = 1, pointerType = ''touch'', forceReset = False\<rparr>"

definition pinchOn :: "nat \<Rightarrow> string \<Rightarrow> nat \<Rightarrow> string list \<Rightarrow> elem \<Rightarrow> PinchGesture" where
  "pinchOn i n m pif el =
     \<lparr>ident = i, name = n, preventDefault = False, stopPropagation = False, preventIf = pif,
      threshold = 0, minPointers = m, maxPointers = \<infinity>, PinchGesture.element = el,
      PinchGesture.state = pinch_initialState\<rparr>"

definition panOn :: "nat \<Rightarrow> string \<Rightarrow> real \<Rightarrow> nat \<Rightarrow> enat \<Rightarrow> elem \<Rightarrow> PanGesture" where
  "panOn i n th mn mx el =
     \<lparr>ident = i, name = n, preventDefault = False, stopPropagation = False, preventIf = [],
      threshold = th, minPointers = mn, maxPointers = mx,
      PanGesture.direction = [up, down, left, right],
      PanGesture.element = Some el, PanGesture.state = pan_initialState\<rparr>"

text \<open>
  A system whose gesture objects are all subscribed, with no pointer pressed and nothing
  active. The concrete runs below use element 7 as the target of every gesture.
\<close>

definition systemOf :: "(nat \<times> GestureObject) list \<Rightarrow> System" where
  "systemOf objs =
     \<lparr>manager = \<lparr>PointerManager.pointers = [],
                  gestureHandlers = map (\<lambda>(oid, obj). boundHandler specExternals oid) objs\<rparr>,
      world = \<lparr>registry = Map.empty, objects = map_of objs, dispatched = []\<rparr>\<rparr>"

definition twoFingersDown :: "Input list" where
  "twoFingersDown =
     [Pointer (touchEvent pointerdown 1 0 0 7 0), Pointer (touchEvent pointerdown 2 100 0 7 10)]"

definition twoPointers :: "EventType \<Rightarrow> real \<Rightarrow> real \<Rightarrow> PointerMap" where
  \<comment> \<open>pointer 1 resting at the origin, pointer 2 at \<open>(x, 0)\<close> after an event of type \<open>ty\<close>\<close>
  "twoPointers ty x t =
     [(1, createPointerData (touchEvent pointerdown 1 0 0 7 0)),
      (2, createPointerData (touchEvent ty 2 x 0 7 t))]"

text \<open>Projections of what was dispatched and of the objects' states.\<close>

fun eventName :: "CustomEvent \<Rightarrow> string" where
  "eventName (PanEvent el n d) = n"
| "eventName (PinchEvent el n d) = n"

fun pinchDetail :: "CustomEvent \<Rightarrow> PinchGestureEventData option" where
  "pinchDetail (PinchEvent el n d) = Some d"
| "pinchDetail (PanEvent el n d) = None"

fun panDetail :: "CustomEvent \<Rightarrow> PanGestureEventData option" where
  "panDetail (PanEvent el n d) = Some d"
| "panDetail (PinchEvent el n d) = None"


definition panDeltaX :: "CustomEvent \<Rightarrow> real option" where
  "panDeltaX e = map_option deltaX (panDetail e)"

definition pinchStateOf :: "World \<Rightarrow> nat \<Rightarrow> PinchGestureState option" where
  "pinchStateOf w oid =
     (case objects w oid of Some (PinchObject g) \<Rightarrow> Some (PinchGesture.state g) | _ \<Rightarrow> None)"

definition panStateOf :: "World \<Rightarrow> nat \<Rightarrow> PanGestureState option" where
  "panStateOf w oid =
     (case objects w oid of Some (PanObject g) \<Rightarrow> Some (PanGesture.state g) | _ \<Rightarrow> None)"

subsection \<open>One pinch instance among other gestures\<close>

text \<open>
  A pinch instance handling a sequence of notifications. Between two notifications the
  other gestures bound to the pointer manager may change the registry: each step carries
  what they do to it, then the pointer map and the event the instance is called with.
\<close>

type_synonym PinchStep =
  "(ActiveGesturesRegistry \<Rightarrow> ActiveGesturesRegistry) \<times> PointerMap \<times> PointerEvent"

fun pinch_run ::
  "Externals \<Rightarrow> PinchGesture \<times> ActiveGesturesRegistry \<Rightarrow> PinchStep list
     \<Rightarrow> (PinchGesture \<times> ActiveGesturesRegistry) \<times> CustomEvent list" where
  "pinch_run ext s [] = (s, [])"
| "pinch_run ext (g, reg) ((others, ptrMap, event) # rest) =
     (let (s1, out) = pinch_handlePointerEvent ext g (others reg) ptrMap event;
          (s2, outs) = pinch_run ext s1 rest
      in (s2, out @ outs))"

text \<open>
  A gesture named in the instance's \<^verbatim>\<open>preventIf\<close> list is active on the instance's
  target: the registry holds an entry of that name for the element.
\<close>

definition listedActive :: "PinchGesture \<Rightarrow> ActiveGesturesRegistry \<Rightarrow> bool" where
  "listedActive g reg =
     list_ex (\<lambda>entry. name (gesture entry) \<in> set (preventIf g))
       (entriesOf reg (PinchGesture.element g))"

text \<open>
  Along a run, a listed gesture is active at every notification, and the other gestures
  never register this instance as active (only the instance itself does).
\<close>

fun suppressedAlong ::
  "Externals \<Rightarrow> PinchGesture \<times> ActiveGesturesRegistry \<Rightarrow> PinchStep list \<Rightarrow> bool" where
  "suppressedAlong ext s [] = True"
| "suppressedAlong ext (g, reg) ((others, ptrMap, event) # rest) =
     (listedActive g (others reg)
      \<and> (isActive g (others reg) \<longrightarrow> isActive g reg)
      \<and> suppressedAlong ext
           (fst (pinch_handlePointerEvent ext g (others reg) ptrMap event)) rest)"

text \<open>
  A registry in which a gesture named rotate is active on element 7, and two
  notifications: a move and a down of pointer 2.
\<close>

definition rotateActive :: ActiveGesturesRegistry where
  "rotateActive = registerActiveGesture Map.empty 7 \<lparr>ident = 12, name = ''rotate''\<rparr>"

definition twoNotifications :: "PinchStep list" where
  "twoNotifications =
     [(id, twoPointers pointermove 150 20, touchEvent pointermove 2 150 0 7 20),
      (id, twoPointers pointerdown 150 30, touchEvent pointerdown 2 150 0 7 30)]"

subsection \<open>Pinch arithmetic in IEEE doubles\<close>

text \<open>
  A JavaScript number is a binary64 double, and each arithmetic operation returns the
  exact result rounded to the nearest double, ties to even. \<open>roundDouble\<close> is that
  rounding for a 53-bit significand with an unbounded exponent (no overflow, underflow,
  infinity or \<^verbatim>\<open>NaN\<close>). The pinch handlers below are the handlers above with every
  quotient, product and difference rounded by \<open>rnd\<close>; with the identity for \<open>rnd\<close> they
  are the handlers above, which is exact wherever the values involved are doubles whose
  exact results are doubles again.
\<close>

definition roundTiesEven :: "real \<Rightarrow> int" where
  "roundTiesEven y =
     (let f = \<lfloor>y\<rfloor>; r = y - of_int f in
      if r < 1/2 then f else if r > 1/2 then f + 1 else if even f then f else f + 1)"

definition roundDouble :: "real \<Rightarrow> real" where
  "roundDouble x =
     (if x = 0 then 0
      else (let e = \<lfloor>log 2 \<bar>x\<bar>\<rfloor>; q = 2 powr (of_int e - 52)
            in of_int (roundTiesEven (x / q)) * q))"

definition pinch_onPointerMove_rnd ::
  "(real \<Rightarrow> real) \<Rightarrow> Externals \<Rightarrow> PinchGesture \<Rightarrow> ActiveGesturesRegistry \<Rightarrow> elem
     \<Rightarrow> PointerData list \<Rightarrow> PointerEvent
     \<Rightarrow> (PinchGesture \<times> ActiveGesturesRegistry) \<times> CustomEvent list" where
  "pinch_onPointerMove_rnd rnd ext g reg targetElement relevantPointers event =
     (let st = PinchGesture.state g in
      if isActive g reg \<and> startDistance st \<noteq> 0 \<and> length relevantPointers \<ge> minPointers g then
        (let currentDistance = calculateAverageDistance ext relevantPointers;
             scl = (if startDistance st \<noteq> 0 then rnd (currentDistance / startDistance st)
                    else 1);
             scaleChange = rnd (scl / lastScale st);
             total = rnd (PinchGestureState.totalScale st * scaleChange);
             deltaTime = rnd (rnd (PointerFields.timeStamp event - lastTime st) / 1000);
             vel = (if deltaTime > 0 \<and> lastDistance st \<noteq> 0
                    then rnd (rnd (currentDistance - lastDistance st) / deltaTime)
                    else PinchGestureState.velocity st);
             g1 = g\<lparr>PinchGesture.state :=
                      st\<lparr>PinchGestureState.totalScale := total,
                         PinchGestureState.velocity := vel,
                         lastDistance := currentDistance, lastScale := scl,
                         lastTime := PointerFields.timeStamp event\<rparr>\<rparr>
         in ((g1, reg), emitPinchEvent ext g1 reg targetElement Ongoing relevantPointers event))
      else ((g, reg), []))"

definition pinch_onPointerUp_rnd ::
  "(real \<Rightarrow> real) \<Rightarrow> Externals \<Rightarrow> PinchGesture \<Rightarrow> ActiveGesturesRegistry \<Rightarrow> elem
     \<Rightarrow> PointerData list \<Rightarrow> PointerEvent
     \<Rightarrow> (PinchGesture \<times> ActiveGesturesRegistry) \<times> CustomEvent list" where
  "pinch_onPointerUp_rnd rnd ext g reg targetElement relevantPointers event =
     (if isActive g reg then
        (let remainingPointers = stillPressed relevantPointers in
         if length remainingPointers < minPointers g then
           (let out = emitPinchEvent ext g reg targetElement
                        (if type event = pointercancel then Cancel else End)
                        relevantPointers event
            in (pinch_resetState g reg, out))
         else if length remainingPointers \<ge> 2 then
           (let newDistance = calculateAverageDistance ext remainingPointers
            in ((g\<lparr>PinchGesture.state := (PinchGesture.state g)
                     \<lparr>startDistance := rnd (newDistance / lastScale (PinchGesture.state g))\<rparr>\<rparr>,
                 reg), []))
         else ((g, reg), []))
      else ((g, reg), []))"

definition pinch_handlePointerEvent_rnd ::
  "(real \<Rightarrow> real) \<Rightarrow> Externals \<Rightarrow> PinchGesture \<Rightarrow> ActiveGesturesRegistry \<Rightarrow> PointerMap
     \<Rightarrow> PointerEvent \<Rightarrow> (PinchGesture \<times> ActiveGesturesRegistry) \<times> CustomEvent list" where
  "pinch_handlePointerEvent_rnd rnd ext g reg ptrMap event =
     (let pointersArray = map snd ptrMap in
      case pinch_getTargetElement ext g event of
        None \<Rightarrow> ((g, reg), [])
      | Some targetElement \<Rightarrow>
          if shouldPreventGesture g reg targetElement then
            (if isActive g reg then
               (let out = emitPinchEvent ext g reg targetElement Cancel pointersArray event
                in (pinch_resetState g reg, out))
             else ((g, reg), []))
          else
            (let relevantPointers = relevantTo ext targetElement pointersArray in
             case type event of
               pointerdown \<Rightarrow> pinch_onPointerDown ext g reg targetElement relevantPointers event
             | pointermove \<Rightarrow>
                 pinch_onPointerMove_rnd rnd ext g reg targetElement relevantPointers event
             | pointerup \<Rightarrow>
                 pinch_onPointerUp_rnd rnd ext g reg targetElement relevantPointers event
             | pointercancel \<Rightarrow>
                 pinch_onPointerUp_rnd rnd ext g reg targetElement relevantPointers event))"

fun pinch_run_rnd ::
  "(real \<Rightarrow> real) \<Rightarrow> Externals \<Rightarrow> PinchGesture \<times> ActiveGesturesRegistry
     \<Rightarrow> (PointerMap \<times> PointerEvent) list
     \<Rightarrow> (PinchGesture \<times> ActiveGesturesRegistry) \<times> CustomEvent list" where
  "pinch_run_rnd rnd ext s [] = (s, [])"
| "pinch_run_rnd rnd ext (g, reg) ((ptrMap, event) # rest) =
     (let (s1, out) = pinch_handlePointerEvent_rnd rnd ext g reg ptrMap event;
          (s2, outs) = pinch_run_rnd rnd ext s1 rest
      in (s2, out @ outs))"

definition pinchScale :: "CustomEvent \<Rightarrow> real option" where
  "pinchScale e = map_option scale (pinchDetail e)"

text \<open>
  Three touches on element 7 at \<open>(0, 0)\<close>, \<open>(x, 0)\<close> and \<open>(21/2, 0)\<close>, the second after an
  event of type \<open>ty\<close> at time \<open>t\<close>, the third after an event of type \<open>ty3\<close>.
\<close>

definition threePointers :: "EventType \<Rightarrow> real \<Rightarrow> real \<Rightarrow> EventType \<Rightarrow> PointerMap" where
  "threePointers ty x t ty3 =
     [(1, createPointerData (touchEvent pointerdown 1 0 0 7 0)),
      (2, createPointerData (touchEvent ty 2 x 0 7 t)),
      (3, createPointerData (touchEvent ty3 3 (21/2) 0 7 (if ty3 = pointerup then 40 else 20)))]"

section \<open>The registry\<close>

lemma entriesOf_register:
  "entriesOf (registerActiveGesture reg e g) e = entriesOf reg e @ [\<lparr>gesture = g, element = e\<rparr>]"
  by (simp add: entriesOf_def registerActiveGesture_def split: option.splits)

lemma entriesOf_register_funpow:
  "entriesOf (((\<lambda>r. registerActiveGesture r e g) ^^ n) reg) e
     = entriesOf reg e @ replicate n \<lparr>gesture = g, element = e\<rparr>"
proof (induction n)
  case 0
  show ?case by simp
next
  case (Suc n)
  show ?case
    by (simp add: entriesOf_register Suc.IH replicate_append_same)
qed

lemma unregister_not_active:
  "isGestureActive (unregisterActiveGesture reg e g) e g = False"
  by (auto simp: isGestureActive_def unregisterActiveGesture_def Let_def list_ex_iff
           split: option.splits)

lemma unregister_drops_key:
  assumes "\<forall>x \<in> set (entriesOf reg e). sameGesture (gesture x) g"
  shows "unregisterActiveGesture reg e g e = None"
proof (cases "reg e")
  case None
  then show ?thesis by (simp add: unregisterActiveGesture_def)
next
  case (Some es)
  with assms have "filter (\<lambda>entry. \<not> sameGesture (gesture entry) g) es = []"
    by (simp add: entriesOf_def filter_empty_conv)
  with Some show ?thesis by (simp add: unregisterActiveGesture_def)
qed

text \<open>
  C10. Each \<^verbatim>\<open>registerActiveGesture(e, g)\<close> call appends one more entry, also when
  \<open>g\<close> is already registered (after \<open>n\<close> calls there are \<open>n\<close> more entries); a single
  \<^verbatim>\<open>unregisterActiveGesture(e, g)\<close> removes every entry of \<open>g\<close>, so
  \<^verbatim>\<open>isGestureActive(e, g)\<close> is false afterwards, whatever the registry held; and when
  no entry of another gesture is left for \<open>e\<close>, the key \<open>e\<close> is dropped and
  \<^verbatim>\<open>getActiveGestures(e)\<close> is the empty mapping.
\<close>

theorem registry_unregister_removes_all:
  "length (entriesOf (((\<lambda>r. registerActiveGesture r e g) ^^ n) reg) e)
     = length (entriesOf reg e) + n
   \<and> isGestureActive
       (unregisterActiveGesture (((\<lambda>r. registerActiveGesture r e g) ^^ n) reg) e g) e g = False
   \<and> ((\<forall>x \<in> set (entriesOf reg e). sameGesture (gesture x) g) \<longrightarrow>
        unregisterActiveGesture (((\<lambda>r. registerActiveGesture r e g) ^^ n) reg) e g e = None
        \<and> getActiveGestures
            (unregisterActiveGesture (((\<lambda>r. registerActiveGesture r e g) ^^ n) reg) e g) e
          = [])"
proof (intro conjI impI)
  let ?r = "((\<lambda>r. registerActiveGesture r e g) ^^ n) reg"
  show "length (entriesOf ?r e) = length (entriesOf reg e) + n"
    by (simp add: entriesOf_register_funpow)
  show "isGestureActive (unregisterActiveGesture ?r e g) e g = False"
    by (rule unregister_not_active)
  assume own: "\<forall>x \<in> set (entriesOf reg e). sameGesture (gesture x) g"
  have "\<forall>x \<in> set (entriesOf ?r e). sameGesture (gesture x) g"
    using own by (auto simp: entriesOf_register_funpow sameGesture_def)
  then show gone: "unregisterActiveGesture ?r e g e = None"
    by (rule unregister_drops_key)
  show "getActiveGestures (unregisterActiveGesture ?r e g) e = []"
    by (simp add: getActiveGestures_def gone)
qed

theorem registry_unregister_removes_all_witness:
  "length (entriesOf (((\<lambda>r. registerActiveGesture r 7 \<lparr>ident = 1, name = ''pinch''\<rparr>) ^^ 3)
             Map.empty) 7) = 3
   \<and> isGestureActive (((\<lambda>r. registerActiveGesture r 7 \<lparr>ident = 1, name = ''pinch''\<rparr>) ^^ 3)
        Map.empty) 7 \<lparr>ident = 1, name = ''pinch''\<rparr>
   \<and> \<not> isGestureActive
        (unregisterActiveGesture
           (((\<lambda>r. registerActiveGesture r 7 \<lparr>ident = 1, name = ''pinch''\<rparr>) ^^ 3) Map.empty)
           7 \<lparr>ident = 1, name = ''pinch''\<rparr>) 7 \<lparr>ident = 1, name = ''pinch''\<rparr>
   \<and> getActiveGestures
        (unregisterActiveGesture
           (((\<lambda>r. registerActiveGesture r 7 \<lparr>ident = 1, name = ''pinch''\<rparr>) ^^ 3) Map.empty)
           7 \<lparr>ident = 1, name = ''pinch''\<rparr>) 7 = []"
proof -
  have none: "\<forall>x \<in> set (entriesOf Map.empty 7). sameGesture (gesture x) \<lparr>ident = 1, name = ''pinch''\<rparr>"
    by (simp add: entriesOf_def)
  have act: "isGestureActive (((\<lambda>r. registerActiveGesture r 7 \<lparr>ident = 1, name = ''pinch''\<rparr>) ^^ 3)
        Map.empty) 7 \<lparr>ident = 1, name = ''pinch''\<rparr>"
    by (simp add: eval_nat_numeral isGestureActive_def registerActiveGesture_def sameGesture_def)
  show ?thesis
    using registry_unregister_removes_all
            [where e = 7 and g = "\<lparr>ident = 1, name = ''pinch''\<rparr>" and n = 3
               and reg = Map.empty] none act
    by (simp add: entriesOf_def)
qed

section \<open>The pointer manager\<close>

lemma handlePointerEvent_terminal:
  assumes "type event = pointerup \<or> type event = pointercancel"
  shows "handlePointerEvent pm event w =
           (pm\<lparr>PointerManager.pointers :=
                 AList.delete (pointerId event)
                   (AList.update (pointerId event) (createPointerData event)
                      (PointerManager.pointers pm))\<rparr>,
            fold (\<lambda>handler. handler
                     (AList.update (pointerId event) (createPointerData event)
                        (PointerManager.pointers pm)) event)
               (gestureHandlers pm) w)"
  using assms by (auto simp: handlePointerEvent_def notifyHandlers_def Let_def)

text \<open>
  C2. When a \<^verbatim>\<open>pointerup\<close> or \<^verbatim>\<open>pointercancel\<close> for pointer \<open>p\<close> is processed, every
  registered handler is called, once and in order, with a pointer map that holds \<open>p\<close>
  with the snapshot of this terminal event; in the manager's state after the call the
  map no longer holds \<open>p\<close>, and every other pointer is as before.
\<close>

theorem terminal_pointer_seen_then_removed:
  assumes "type event = pointerup \<or> type event = pointercancel"
  shows "map_of (AList.update (pointerId event) (createPointerData event) (PointerManager.pointers pm))
           (pointerId event) = Some (createPointerData event)
       \<and> type (createPointerData event) = type event
       \<and> snd (handlePointerEvent pm event w)
           = fold (\<lambda>handler. handler
                     (AList.update (pointerId event) (createPointerData event)
                        (PointerManager.pointers pm)) event)
               (gestureHandlers pm) w
       \<and> pointerId event
           \<notin> set (map fst (PointerManager.pointers (fst (handlePointerEvent pm event w))))
       \<and> (\<forall>k. k \<noteq> pointerId event \<longrightarrow>
             map_of (PointerManager.pointers (fst (handlePointerEvent pm event w))) k
               = map_of (PointerManager.pointers pm) k)"
proof (intro conjI allI impI)
  show "map_of (AList.update (pointerId event) (createPointerData event) (PointerManager.pointers pm))
           (pointerId event) = Some (createPointerData event)"
    by (simp add: update_conv')
  show "type (createPointerData event) = type event"
    by (simp add: createPointerData_def)
  show "snd (handlePointerEvent pm event w)
           = fold (\<lambda>handler. handler
                     (AList.update (pointerId event) (createPointerData event)
                        (PointerManager.pointers pm)) event)
               (gestureHandlers pm) w"
    by (simp add: handlePointerEvent_terminal [OF assms])
  show "pointerId event
           \<notin> set (map fst (PointerManager.pointers (fst (handlePointerEvent pm event w))))"
    by (simp add: handlePointerEvent_terminal [OF assms] delete_keys)
  fix k assume "k \<noteq> pointerId event"
  then show "map_of (PointerManager.pointers (fst (handlePointerEvent pm event w))) k
               = map_of (PointerManager.pointers pm) k"
    by (simp add: handlePointerEvent_terminal [OF assms] delete_conv' update_conv')
qed

theorem terminal_pointer_seen_then_removed_witness:
  "type (touchEvent pointerup 1 5 5 7 20) = pointerup
   \<and> snd (handlePointerEvent
        \<lparr>PointerManager.pointers = [(1, createPointerData (touchEvent pointerdown 1 0 0 7 0))],
         gestureHandlers = [recorder 10, recorder 11]\<rparr>
        (touchEvent pointerup 1 5 5 7 20) [])
     = [(10, [(1, createPointerData (touchEvent pointerup 1 5 5 7 20))], touchEvent pointerup 1 5 5 7 20),
        (11, [(1, createPointerData (touchEvent pointerup 1 5 5 7 20))], touchEvent pointerup 1 5 5 7 20)]
   \<and> PointerManager.pointers (fst (handlePointerEvent
        \<lparr>PointerManager.pointers = [(1, createPointerData (touchEvent pointerdown 1 0 0 7 0))],
         gestureHandlers = [recorder 10, recorder 11]\<rparr>
        (touchEvent pointerup 1 5 5 7 20) [])) = []"
proof -
  have ty: "type (touchEvent pointerup 1 5 5 7 20) = pointerup \<or> type (touchEvent pointerup 1 5 5 7 20) = pointercancel"
    by (simp add: touchEvent_def)
  have pid: "pointerId (touchEvent pointerup 1 5 5 7 20) = 1" "pointerId (createPointerData (touchEvent pointerdown 1 0 0 7 0)) = 1"
    by (simp_all add: touchEvent_def createPointerData_def)
  have last: "PointerManager.pointers (fst (handlePointerEvent
        \<lparr>PointerManager.pointers = [(1, createPointerData (touchEvent pointerdown 1 0 0 7 0))],
         gestureHandlers = [recorder 10, recorder 11]\<rparr>
        (touchEvent pointerup 1 5 5 7 20) [])) = []"
    by (simp add: handlePointerEvent_terminal [OF ty] pid AList.delete_eq)
  show ?thesis
    using terminal_pointer_seen_then_removed [OF ty,
        where pm = "\<lparr>PointerManager.pointers = [(1, createPointerData (touchEvent pointerdown 1 0 0 7 0))],
         gestureHandlers = [recorder 10, recorder 11]\<rparr>" and w = "[]"] last
    by (simp add: pid recorder_def) (simp add: touchEvent_def)
qed

section \<open>Evaluating concrete runs\<close>

lemmas run_defs = system_run_def system_step_def handlePointerEvent_def handleInterruptEvents_def
  notifyHandlers_def createPointerData_def newCancelEvent_def boundHandler_def systemOf_def
  touchEvent_def twoFingersDown_def relevantTo_def containsTarget_def stillPressed_def
  createEventName_def specExternals_def spec_calculateCentroid_def Let_def

lemmas pinch_defs = pinchOn_def pinch_handlePointerEvent_def pinch_getTargetElement_def
  shouldPreventGesture_def objectSet_def arrayIndex_def isDigit_def pinch_onPointerDown_def pinch_onPointerMove_def
  pinch_onPointerUp_def isActive_def set_isActive_def isGestureActive_def
  registerActiveGesture_def unregisterActiveGesture_def getActiveGestures_def thisRef_def
  sameGesture_def emitPinchEvent_def pinch_resetState_def spec_calculateAverageDistance_def
  pinch_initialState_def

lemmas pan_defs = panOn_def pan_handlePointerEvent_def pan_getTargetElement_def
  pan_forceReset_def pan_onPointerDown_def pan_onPointerMove_def pan_onPointerUp_def
  pan_cancel_def emitPanEvent_def pan_resetState_def pan_resetActiveState_def
  pan_initialState_def spec_getDirection_def spec_isDirectionAllowed_def

lemma sqrt_400: "sqrt 400 = 20"
  by (rule real_sqrt_unique) simp_all

lemma sqrt_3600: "sqrt 3600 = 60"
  by (rule real_sqrt_unique) simp_all

lemma sqrt_10000: "sqrt 10000 = 100"
  by (rule real_sqrt_unique) simp_all


lemma sqrt_40000: "sqrt 40000 = 200"
  by (rule real_sqrt_unique) simp_all


section \<open>Pinch\<close>



lemma register_active: "isGestureActive (registerActiveGesture reg el r) el r"
  by (simp add: isGestureActive_def registerActiveGesture_def sameGesture_def split: option.splits)

lemma getTarget_state_irrelevant:
  "pinch_getTargetElement ext (g\<lparr>PinchGesture.state := st\<rparr>) event
     = pinch_getTargetElement ext g event"
  by (simp add: pinch_getTargetElement_def)

lemma isActive_state_irrelevant:
  "isActive (g\<lparr>PinchGesture.state := st\<rparr>) reg = isActive g reg"
  by (simp add: isActive_def thisRef_def)

lemma shouldPrevent_state_irrelevant:
  "shouldPreventGesture (g\<lparr>PinchGesture.state := st\<rparr>) reg el = shouldPreventGesture g reg el"
  by (simp add: shouldPreventGesture_def)




subsection \<open>Rebasing after a partial lift\<close>

text \<open>The rounding of doubles has relative error at most \<open>2\<^sup>-\<^sup>5\<^sup>3\<close>.\<close>

lemma roundTiesEven_error: "\<bar>of_int (roundTiesEven y) - y\<bar> \<le> 1/2"
proof -
  have "of_int \<lfloor>y\<rfloor> \<le> y" "y < of_int \<lfloor>y\<rfloor> + 1" by linarith+
  then show ?thesis
    by (auto simp: roundTiesEven_def Let_def)
qed

lemma roundDouble_error: "\<bar>roundDouble x - x\<bar> \<le> (1 / 2 ^ 53) * \<bar>x\<bar>"
proof (cases "x = 0")
  case True
  then show ?thesis by (simp add: roundDouble_def)
next
  case False
  define e where "e = \<lfloor>log 2 \<bar>x\<bar>\<rfloor>"
  define q :: real where "q = 2 powr (of_int e - 52)"
  have q0: "0 < q" by (simp add: q_def)
  have "of_int e \<le> log 2 \<bar>x\<bar>" by (simp add: e_def)
  then have low: "2 powr of_int e \<le> \<bar>x\<bar>"
    using False by (simp add: le_log_iff)
  have rd: "roundDouble x = of_int (roundTiesEven (x / q)) * q"
    using False by (simp add: roundDouble_def e_def q_def Let_def)
  have "roundDouble x - x = (of_int (roundTiesEven (x / q)) - x / q) * q"
    using q0 by (simp add: rd field_simps)
  then have "\<bar>roundDouble x - x\<bar> = \<bar>of_int (roundTiesEven (x / q)) - x / q\<bar> * q"
    using q0 by (simp add: abs_mult)
  also have "\<dots> \<le> (1/2) * q"
    using roundTiesEven_error [of "x / q"] q0 by (intro mult_right_mono) auto
  also have "(1/2) * q = (1 / 2 ^ 53) * 2 powr of_int e"
    by (simp add: q_def powr_diff)
  also have "\<dots> \<le> (1 / 2 ^ 53) * \<bar>x\<bar>"
    using low by (intro mult_left_mono) auto
  finally show ?thesis .
qed

lemma roundDouble_eval:
  assumes "x \<noteq> 0" "2 powr of_int e \<le> \<bar>x\<bar>" "\<bar>x\<bar> < 2 powr (of_int e + 1)"
  shows "roundDouble x
           = of_int (roundTiesEven (x / 2 powr (of_int e - 52))) * 2 powr (of_int e - 52)"
proof -
  have "of_int e \<le> log 2 \<bar>x\<bar>" using assms by (simp add: le_log_iff)
  moreover have "log 2 \<bar>x\<bar> < of_int e + 1" using assms by (simp add: log_less_iff)
  ultimately have "\<lfloor>log 2 \<bar>x\<bar>\<rfloor> = e" by linarith
  with assms(1) show ?thesis by (simp add: roundDouble_def Let_def)
qed

lemma roundDouble_7: "roundDouble 7 = 7"
  by (subst roundDouble_eval [where e = 2])
     (simp_all add: roundTiesEven_def Let_def powr_minus powr_diff)

lemma roundDouble_9_7: "roundDouble (9 / 7) = 5790342378047781 / 4503599627370496"
  by (subst roundDouble_eval [where e = 0])
     (simp_all add: roundTiesEven_def Let_def powr_minus powr_diff)

lemma rebase_rounding_bound:
  fixes rnd :: "real \<Rightarrow> real"
  assumes u0: "0 \<le> u" and u1: "u < 1"
      and rnd: "\<And>x. \<bar>rnd x - x\<bar> \<le> u * \<bar>x\<bar>"
      and d: "d \<noteq> 0" and k: "k \<noteq> 0"
  shows "rnd (d / k) \<noteq> 0"
    and "\<bar>rnd (d / rnd (d / k)) - k\<bar> \<le> 2 * u / (1 - u) * \<bar>k\<bar>"
proof -
  define a where "a = d / k"
  define s where "s = rnd a"
  define b where "b = d / s"
  have a0: "a \<noteq> 0" using d k by (simp add: a_def)
  have sa: "\<bar>s - a\<bar> \<le> u * \<bar>a\<bar>" unfolding s_def by (rule rnd)
  have "\<bar>a\<bar> - \<bar>s\<bar> \<le> \<bar>s - a\<bar>" by linarith
  with sa have s_low: "(1 - u) * \<bar>a\<bar> \<le> \<bar>s\<bar>" by (simp add: algebra_simps)
  have "0 < (1 - u) * \<bar>a\<bar>" using u1 a0 by simp
  with s_low have s0: "s \<noteq> 0" by auto
  then show "rnd (d / k) \<noteq> 0" by (simp add: s_def a_def)
  have dk: "d = k * a" using k by (simp add: a_def)
  have "b - k = k * ((a - s) / s)"
    using s0 by (simp add: b_def dk field_simps)
  then have bk: "\<bar>b - k\<bar> = \<bar>k\<bar> * (\<bar>s - a\<bar> / \<bar>s\<bar>)"
    by (simp add: abs_mult abs_minus_commute)
  have "\<bar>s - a\<bar> * (1 - u) \<le> (u * \<bar>a\<bar>) * (1 - u)"
    using sa u1 by (intro mult_right_mono) auto
  also have "\<dots> = u * ((1 - u) * \<bar>a\<bar>)" by (simp add: algebra_simps)
  also have "\<dots> \<le> u * \<bar>s\<bar>" using s_low u0 by (intro mult_left_mono) auto
  finally have "\<bar>s - a\<bar> * (1 - u) \<le> u * \<bar>s\<bar>" .
  then have ratio: "\<bar>s - a\<bar> / \<bar>s\<bar> \<le> u / (1 - u)"
    using s0 u1 by (simp add: field_simps)
  have bk_le: "\<bar>b - k\<bar> \<le> \<bar>k\<bar> * (u / (1 - u))"
    unfolding bk using ratio by (intro mult_left_mono) auto
  have "\<bar>b\<bar> \<le> \<bar>k\<bar> + \<bar>b - k\<bar>" by linarith
  also have "\<dots> \<le> \<bar>k\<bar> + \<bar>k\<bar> * (u / (1 - u))" using bk_le by simp
  also have "\<dots> = \<bar>k\<bar> / (1 - u)" using u1 by (simp add: field_simps)
  finally have b_le: "\<bar>b\<bar> \<le> \<bar>k\<bar> / (1 - u)" .
  have "\<bar>rnd b - k\<bar> \<le> \<bar>rnd b - b\<bar> + \<bar>b - k\<bar>" by linarith
  also have "\<dots> \<le> u * \<bar>b\<bar> + \<bar>k\<bar> * (u / (1 - u))"
    using rnd [of b] bk_le by linarith
  also have "\<dots> \<le> u * (\<bar>k\<bar> / (1 - u)) + \<bar>k\<bar> * (u / (1 - u))"
    using mult_left_mono [OF b_le u0] by linarith
  also have "\<dots> = 2 * u / (1 - u) * \<bar>k\<bar>" by (simp add: field_simps)
  finally show "\<bar>rnd (d / rnd (d / k)) - k\<bar> \<le> 2 * u / (1 - u) * \<bar>k\<bar>"
    by (simp add: b_def s_def a_def)
qed


lemma pinch_rnd_identity:
  "pinch_handlePointerEvent_rnd (\<lambda>x. x) ext g reg ptrMap event
     = pinch_handlePointerEvent ext g reg ptrMap event"
  by (simp add: pinch_handlePointerEvent_rnd_def pinch_handlePointerEvent_def
        pinch_onPointerMove_rnd_def pinch_onPointerMove_def pinch_onPointerUp_rnd_def
        pinch_onPointerUp_def Let_def split: option.splits EventType.splits)

lemma pinch_dispatch_rnd:
  assumes "pinch_getTargetElement ext g event = Some el" "\<not> shouldPreventGesture g reg el"
  shows "pinch_handlePointerEvent_rnd rnd ext g reg ptrMap event =
     (case type event of
        pointerdown \<Rightarrow> pinch_onPointerDown ext g reg el (relevantTo ext el (map snd ptrMap)) event
      | pointermove \<Rightarrow>
          pinch_onPointerMove_rnd rnd ext g reg el (relevantTo ext el (map snd ptrMap)) event
      | pointerup \<Rightarrow>
          pinch_onPointerUp_rnd rnd ext g reg el (relevantTo ext el (map snd ptrMap)) event
      | pointercancel \<Rightarrow>
          pinch_onPointerUp_rnd rnd ext g reg el (relevantTo ext el (map snd ptrMap)) event)"
  using assms by (simp add: pinch_handlePointerEvent_rnd_def Let_def)

text \<open>
  C6, as the code has it, in double arithmetic: \<open>rnd\<close> is any rounding with relative error
  at most \<open>u < 1\<close>. For an active pinch that is not suppressed, a \<^verbatim>\<open>pointerup\<close> or
  \<^verbatim>\<open>pointercancel\<close> within its target
  \<^item> that leaves fewer than \<^verbatim>\<open>minPointers\<close> relevant pointers pressed ends the gesture: one
    end event (cancel for a \<^verbatim>\<open>pointercancel\<close>) and a reset, also when two or more remain;
  \<^item> that leaves at least two and at least \<^verbatim>\<open>minPointers\<close> pressed emits nothing and sets
    the start distance to the rounded quotient of the remaining spread \<open>d\<close> and the last
    scale \<open>k\<close> (non-zero);
  \<^item> and then, when \<open>d\<close> is not zero, the next move at an unchanged spread emits the scale
    \<open>rnd (d / rnd (d / k))\<close>, which differs from the previous scale \<open>k\<close> by at most
    \<open>2u / (1 - u)\<close> times \<open>k\<close>, and equals it when the quotient \<open>d / k\<close> is exact.
\<close>

theorem pinch_rebase_scale_up_to_rounding:
  fixes rnd :: "real \<Rightarrow> real"
  assumes u0: "0 \<le> u" and u1: "u < 1"
      and rnd: "\<And>x. \<bar>rnd x - x\<bar> \<le> u * \<bar>x\<bar>"
      and act: "isActive g reg"
      and ty: "type ev = pointerup \<or> type ev = pointercancel"
      and tgt: "pinch_getTargetElement ext g ev = Some (PinchGesture.element g)"
      and free: "\<not> shouldPreventGesture g reg (PinchGesture.element g)"
      and rem: "remaining = stillPressed (relevantTo ext (PinchGesture.element g) (map snd ps))"
      and d: "d = calculateAverageDistance ext remaining"
      and k: "k = lastScale (PinchGesture.state g)"
  shows "(length remaining < minPointers g \<longrightarrow>
            pinch_handlePointerEvent_rnd rnd ext g reg ps ev =
              (pinch_resetState g reg,
               emitPinchEvent ext g reg (PinchGesture.element g)
                 (if type ev = pointercancel then Cancel else End)
                 (relevantTo ext (PinchGesture.element g) (map snd ps)) ev))
       \<and> (minPointers g \<le> length remaining \<and> 2 \<le> length remaining \<and> k \<noteq> 0 \<longrightarrow>
            pinch_handlePointerEvent_rnd rnd ext g reg ps ev =
              ((g\<lparr>PinchGesture.state := (PinchGesture.state g)\<lparr>startDistance := rnd (d / k)\<rparr>\<rparr>,
                reg), []))
       \<and> (minPointers g \<le> length remaining \<and> 2 \<le> length remaining \<and> k \<noteq> 0 \<and> d \<noteq> 0
            \<and> type ev' = pointermove
            \<and> pinch_getTargetElement ext g ev' = Some (PinchGesture.element g)
            \<and> minPointers g \<le> length (relevantTo ext (PinchGesture.element g) (map snd ps'))
            \<and> calculateAverageDistance ext
                 (relevantTo ext (PinchGesture.element g) (map snd ps')) = d
            \<longrightarrow>
            map pinchScale (snd (pinch_run_rnd rnd ext (g, reg) [(ps, ev), (ps', ev')]))
              = [Some (rnd (d / rnd (d / k)))]
            \<and> \<bar>rnd (d / rnd (d / k)) - k\<bar> \<le> 2 * u / (1 - u) * \<bar>k\<bar>
            \<and> (rnd (d / k) = d / k \<and> rnd k = k \<longrightarrow> rnd (d / rnd (d / k)) = k))"
proof (intro conjI impI)
  let ?el = "PinchGesture.element g"
  let ?g1 = "g\<lparr>PinchGesture.state := (PinchGesture.state g)\<lparr>startDistance := rnd (d / k)\<rparr>\<rparr>"
  show "pinch_handlePointerEvent_rnd rnd ext g reg ps ev =
              (pinch_resetState g reg,
               emitPinchEvent ext g reg ?el (if type ev = pointercancel then Cancel else End)
                 (relevantTo ext ?el (map snd ps)) ev)"
    if "length remaining < minPointers g"
    using that ty act
    by (auto simp: pinch_dispatch_rnd [OF tgt free] pinch_onPointerUp_rnd_def Let_def rem)
  have up: "pinch_handlePointerEvent_rnd rnd ext g reg ps ev = ((?g1, reg), [])"
    if "minPointers g \<le> length remaining" "2 \<le> length remaining"
    using that ty act
    by (auto simp: pinch_dispatch_rnd [OF tgt free] pinch_onPointerUp_rnd_def Let_def rem d k)
  show "pinch_handlePointerEvent_rnd rnd ext g reg ps ev = ((?g1, reg), [])"
    if "minPointers g \<le> length remaining \<and> 2 \<le> length remaining \<and> k \<noteq> 0"
    using that up by blast
  assume a: "minPointers g \<le> length remaining \<and> 2 \<le> length remaining \<and> k \<noteq> 0 \<and> d \<noteq> 0
            \<and> type ev' = pointermove
            \<and> pinch_getTargetElement ext g ev' = Some (PinchGesture.element g)
            \<and> minPointers g \<le> length (relevantTo ext (PinchGesture.element g) (map snd ps'))
            \<and> calculateAverageDistance ext
                 (relevantTo ext (PinchGesture.element g) (map snd ps')) = d"
  then have k0: "k \<noteq> 0" and d0: "d \<noteq> 0" by blast+
  have s0: "rnd (d / k) \<noteq> 0"
    by (rule rebase_rounding_bound(1) [OF u0 u1 rnd d0 k0])
  show bound: "\<bar>rnd (d / rnd (d / k)) - k\<bar> \<le> 2 * u / (1 - u) * \<bar>k\<bar>"
    by (rule rebase_rounding_bound(2) [OF u0 u1 rnd d0 k0])
  have t1: "pinch_getTargetElement ext ?g1 ev' = Some (PinchGesture.element ?g1)"
    using a by (simp add: getTarget_state_irrelevant)
  have f1: "\<not> shouldPreventGesture ?g1 reg (PinchGesture.element ?g1)"
    using free by (simp add: shouldPrevent_state_irrelevant)
  have a1: "isActive ?g1 reg"
    using act by (simp add: isActive_state_irrelevant)
  have move: "map pinchScale (snd (pinch_handlePointerEvent_rnd rnd ext ?g1 reg ps' ev'))
                = [Some (rnd (d / rnd (d / k)))]"
    using a a1 s0
    by (simp add: pinch_dispatch_rnd [OF t1 f1] pinch_onPointerMove_rnd_def Let_def
          emitPinchEvent_def pinchScale_def)
  from a have "minPointers g \<le> length remaining" "2 \<le> length remaining" by blast+
  from up [OF this] move
  show "map pinchScale (snd (pinch_run_rnd rnd ext (g, reg) [(ps, ev), (ps', ev')]))
              = [Some (rnd (d / rnd (d / k)))]"
    by (simp split: prod.splits)
  show "rnd (d / rnd (d / k)) = k" if "rnd (d / k) = d / k \<and> rnd k = k"
    using that d0 k0 by simp
qed

lemma sqrt_81: "sqrt 81 = 9"
  by (rule real_sqrt_unique) simp_all

lemma sqrt_441_4: "sqrt (441 / 4) = 21 / 2"
  by (rule real_sqrt_unique) (simp_all add: power2_eq_square)

lemma sqrt_9_4: "sqrt (9 / 4) = 3 / 2"
  by (rule real_sqrt_unique) (simp_all add: power2_eq_square)

lemma roundDouble_9_7_nonzero: "roundDouble (9 / 7) \<noteq> 0"
  by (simp add: roundDouble_9_7)

lemma rebased_scale:
  "roundDouble (9 / roundDouble (9 / 7)) = 7881299347898367 / 1125899906842624"
  unfolding roundDouble_9_7
  by (subst roundDouble_eval [where e = 2])
     (simp_all add: roundTiesEven_def Let_def powr_minus powr_diff)

text \<open>
  The concrete input of the witness, with the rounding of doubles: a pinch on element 7
  that started at spread 1 and is at scale 7, with three touches down; pointer 3 is
  lifted, the remaining two are at spread 9. The start distance changes from 1 to the
  double nearest to 9/7, and the next move at the unchanged spread emits
  \<open>7 - 2\<^sup>-\<^sup>5\<^sup>0\<close>.
\<close>

theorem pinch_rebase_scale_up_to_rounding_witness:
  "isActive
     ((pinchOn 11 ''pinch'' 2 [] 7)\<lparr>PinchGesture.state :=
         \<lparr>startDistance = 1, lastDistance = 7, lastScale = 7, lastTime = 30,
          velocity = 300, totalScale = 7\<rparr>\<rparr>)
     (registerActiveGesture Map.empty 7 \<lparr>ident = 11, name = ''pinch''\<rparr>)
   \<and> length (stillPressed (relevantTo specExternals 7
        (map snd (threePointers pointermove 9 30 pointerup)))) = 2
   \<and> map_option startDistance
        (Some (PinchGesture.state (fst (fst (pinch_handlePointerEvent_rnd roundDouble specExternals
           ((pinchOn 11 ''pinch'' 2 [] 7)\<lparr>PinchGesture.state :=
               \<lparr>startDistance = 1, lastDistance = 7, lastScale = 7, lastTime = 30,
                velocity = 300, totalScale = 7\<rparr>\<rparr>)
           (registerActiveGesture Map.empty 7 \<lparr>ident = 11, name = ''pinch''\<rparr>)
           (threePointers pointermove 9 30 pointerup)
           (touchEvent pointerup 3 (21/2) 0 7 40))))))
      = Some (5790342378047781 / 4503599627370496)
   \<and> map pinchScale
       (snd (pinch_run_rnd roundDouble specExternals
          ((pinchOn 11 ''pinch'' 2 [] 7)\<lparr>PinchGesture.state :=
              \<lparr>startDistance = 1, lastDistance = 7, lastScale = 7, lastTime = 30,
               velocity = 300, totalScale = 7\<rparr>\<rparr>,
           registerActiveGesture Map.empty 7 \<lparr>ident = 11, name = ''pinch''\<rparr>)
          [(threePointers pointermove 9 30 pointerup, touchEvent pointerup 3 (21/2) 0 7 40),
           (twoPointers pointermove 9 50, touchEvent pointermove 2 9 0 7 50)]))
     = [Some (7881299347898367 / 1125899906842624)]
   \<and> \<bar>7881299347898367 / 1125899906842624 - 7\<bar>
        \<le> 2 * (1 / 2 ^ 53) / (1 - 1 / 2 ^ 53) * \<bar>7 :: real\<bar>"
proof -
  let ?g = "(pinchOn 11 ''pinch'' 2 [] 7)\<lparr>PinchGesture.state :=
              \<lparr>startDistance = 1, lastDistance = 7, lastScale = 7, lastTime = 30,
               velocity = 300, totalScale = 7\<rparr>\<rparr>"
  let ?reg = "registerActiveGesture Map.empty 7 \<lparr>ident = 11, name = ''pinch''\<rparr>"
  let ?ps = "threePointers pointermove 9 30 pointerup"
  let ?ev = "touchEvent pointerup 3 (21/2) 0 7 40"
  let ?ps' = "twoPointers pointermove 9 50"
  let ?ev' = "touchEvent pointermove 2 9 0 7 50"
  let ?rem = "map snd (twoPointers pointermove 9 30)"
  have u0: "(0::real) \<le> 1 / 2 ^ 53" and u1: "(1::real) / 2 ^ 53 < 1"
    by simp_all
  have el: "PinchGesture.element ?g = 7"
    by (simp add: pinchOn_def)
  have act: "isActive ?g ?reg"
    by (simp add: isActive_def thisRef_def pinchOn_def register_active)
  have ty: "type ?ev = pointerup \<or> type ?ev = pointercancel"
    by (simp add: touchEvent_def)
  have tgt: "pinch_getTargetElement specExternals ?g ?ev = Some (PinchGesture.element ?g)"
    by (simp add: pinch_getTargetElement_def pinchOn_def touchEvent_def)
  have free: "\<not> shouldPreventGesture ?g ?reg (PinchGesture.element ?g)"
    by (simp add: shouldPreventGesture_def pinchOn_def)
  have rem7: "stillPressed (relevantTo specExternals 7 (map snd ?ps)) = ?rem"
    by (simp add: stillPressed_def relevantTo_def threePointers_def twoPointers_def
          createPointerData_def touchEvent_def)
  have rem: "?rem = stillPressed (relevantTo specExternals (PinchGesture.element ?g) (map snd ?ps))"
    unfolding el rem7 ..
  have d: "9 = calculateAverageDistance specExternals ?rem"
    by (simp add: twoPointers_def createPointerData_def touchEvent_def specExternals_def
          spec_calculateAverageDistance_def sqrt_81)
  have k: "7 = lastScale (PinchGesture.state ?g)"
    by simp
  have len: "length ?rem = 2"
    by (simp add: twoPointers_def)
  have next_rel: "relevantTo specExternals 7 (map snd ?ps') = map snd ?ps'"
    by (simp add: relevantTo_def twoPointers_def createPointerData_def touchEvent_def)
  have next_d: "calculateAverageDistance specExternals (map snd ?ps') = 9"
    by (simp add: twoPointers_def createPointerData_def touchEvent_def specExternals_def
          spec_calculateAverageDistance_def sqrt_81)
  have pre: "minPointers ?g \<le> length ?rem \<and> 2 \<le> length ?rem \<and> (7::real) \<noteq> 0 \<and> (9::real) \<noteq> 0
      \<and> type ?ev' = pointermove
      \<and> pinch_getTargetElement specExternals ?g ?ev' = Some (PinchGesture.element ?g)
      \<and> minPointers ?g \<le> length (relevantTo specExternals (PinchGesture.element ?g) (map snd ?ps'))
      \<and> calculateAverageDistance specExternals
           (relevantTo specExternals (PinchGesture.element ?g) (map snd ?ps')) = 9"
    unfolding el next_rel next_d len
    by (simp add: pinchOn_def touchEvent_def pinch_getTargetElement_def twoPointers_def)
  note inst = pinch_rebase_scale_up_to_rounding
               [OF u0 u1 roundDouble_error act ty tgt free rem d k, of ?ev' ?ps']
  from inst pre
  have step: "pinch_handlePointerEvent_rnd roundDouble specExternals ?g ?reg ?ps ?ev =
                ((?g\<lparr>PinchGesture.state := (PinchGesture.state ?g)
                      \<lparr>startDistance := roundDouble (9 / 7)\<rparr>\<rparr>, ?reg), [])"
    by blast
  from inst pre
  have run: "map pinchScale (snd (pinch_run_rnd roundDouble specExternals (?g, ?reg)
               [(?ps, ?ev), (?ps', ?ev')])) = [Some (roundDouble (9 / roundDouble (9 / 7)))]"
    and bound: "\<bar>roundDouble (9 / roundDouble (9 / 7)) - 7\<bar>
                  \<le> 2 * (1 / 2 ^ 53) / (1 - 1 / 2 ^ 53) * \<bar>7 :: real\<bar>"
    by blast+
  have sd: "map_option startDistance
        (Some (PinchGesture.state (fst (fst (pinch_handlePointerEvent_rnd roundDouble specExternals
           ?g ?reg ?ps ?ev)))))
      = Some (5790342378047781 / 4503599627370496)"
    unfolding step by (simp add: roundDouble_9_7)
  from act len rem7 sd run bound show ?thesis
    unfolding rebased_scale by simp
qed

text \<open>The run that ends instead of rebasing, and the run whose rebase is inexact.\<close>

lemma pinch_ends_below_minimum_run:
  "map eventPhase (dispatched (world (system_run
       (twoFingersDown @
        [Pointer (touchEvent pointerdown 3 200 0 7 20), Pointer (touchEvent pointerup 3 200 0 7 30)])
       (systemOf [(11, PinchObject (pinchOn 11 ''pinch'' 3 [] 7))])))) = [Start, End]
   \<and> map_option startDistance (pinchStateOf (world (system_run
       (twoFingersDown @
        [Pointer (touchEvent pointerdown 3 200 0 7 20), Pointer (touchEvent pointerup 3 200 0 7 30)])
       (systemOf [(11, PinchObject (pinchOn 11 ''pinch'' 3 [] 7))]))) 11) = Some 0
   \<and> map fst (PointerManager.pointers (manager (system_run
       (twoFingersDown @
        [Pointer (touchEvent pointerdown 3 200 0 7 20), Pointer (touchEvent pointerup 3 200 0 7 30)])
       (systemOf [(11, PinchObject (pinchOn 11 ''pinch'' 3 [] 7))])))) = [1, 2]"
  by (simp add: run_defs pinch_defs sqrt_10000 sqrt_40000 pinchStateOf_def AList.delete_eq)

lemma pinch_rebase_rounds_run:
  "map pinchScale
     (snd (pinch_run_rnd roundDouble specExternals (pinchOn 11 ''pinch'' 2 [] 7, Map.empty)
        [([(1, createPointerData (touchEvent pointerdown 1 0 0 7 0))],
          touchEvent pointerdown 1 0 0 7 0),
         (twoPointers pointerdown 1 10, touchEvent pointerdown 2 1 0 7 10),
         (threePointers pointerdown 1 10 pointerdown, touchEvent pointerdown 3 (21/2) 0 7 20),
         (threePointers pointermove 9 30 pointerdown, touchEvent pointermove 2 9 0 7 30),
         (threePointers pointermove 9 30 pointerup, touchEvent pointerup 3 (21/2) 0 7 40),
         (twoPointers pointermove 9 50, touchEvent pointermove 2 9 0 7 50)]))
   = [Some 1, Some 7, Some (7881299347898367 / 1125899906842624)]"
  by (simp add: pinch_handlePointerEvent_rnd_def pinch_onPointerMove_rnd_def
        pinch_onPointerUp_rnd_def pinch_onPointerDown_def pinchOn_def pinch_getTargetElement_def
        shouldPreventGesture_def isActive_def set_isActive_def isGestureActive_def
        registerActiveGesture_def getActiveGestures_def objectSet_def arrayIndex_def isDigit_def
        thisRef_def sameGesture_def emitPinchEvent_def pinch_initialState_def
        spec_calculateAverageDistance_def specExternals_def spec_calculateCentroid_def
        relevantTo_def containsTarget_def stillPressed_def createEventName_def
        createPointerData_def touchEvent_def twoPointers_def threePointers_def pinchScale_def
        Let_def sqrt_81 sqrt_441_4 sqrt_9_4 roundDouble_7 roundDouble_9_7_nonzero rebased_scale)

text \<open>
  C6, as stated, fails in two ways. When \<^verbatim>\<open>minPointers\<close> is above 2: a pinch configured
  with \<^verbatim>\<open>minPointers = 3\<close> is active with three touches down; lifting the third leaves two
  relevant pointers pressed, and the gesture ends (an end event, start distance reset to
  0) instead of rebasing. And in double arithmetic: a pinch started at spread 1 is moved
  to scale 7 with three touches down; the third is lifted, leaving spread 9, and the next
  move with the two remaining pointers where they were emits the scale
  \<open>7 - 2\<^sup>-\<^sup>5\<^sup>0\<close> (6.999999999999999), not the previous scale 7.
\<close>

theorem pinch_rebase_counterexample:
  "(map eventPhase (dispatched (world (system_run
       (twoFingersDown @
        [Pointer (touchEvent pointerdown 3 200 0 7 20), Pointer (touchEvent pointerup 3 200 0 7 30)])
       (systemOf [(11, PinchObject (pinchOn 11 ''pinch'' 3 [] 7))])))) = [Start, End]
   \<and> map_option startDistance (pinchStateOf (world (system_run
       (twoFingersDown @
        [Pointer (touchEvent pointerdown 3 200 0 7 20), Pointer (touchEvent pointerup 3 200 0 7 30)])
       (systemOf [(11, PinchObject (pinchOn 11 ''pinch'' 3 [] 7))]))) 11) = Some 0
   \<and> map fst (PointerManager.pointers (manager (system_run
       (twoFingersDown @
        [Pointer (touchEvent pointerdown 3 200 0 7 20), Pointer (touchEvent pointerup 3 200 0 7 30)])
       (systemOf [(11, PinchObject (pinchOn 11 ''pinch'' 3 [] 7))])))) = [1, 2])
   \<and> map pinchScale
        (snd (pinch_run_rnd roundDouble specExternals (pinchOn 11 ''pinch'' 2 [] 7, Map.empty)
           [([(1, createPointerData (touchEvent pointerdown 1 0 0 7 0))],
             touchEvent pointerdown 1 0 0 7 0),
            (twoPointers pointerdown 1 10, touchEvent pointerdown 2 1 0 7 10),
            (threePointers pointerdown 1 10 pointerdown, touchEvent pointerdown 3 (21/2) 0 7 20),
            (threePointers pointermove 9 30 pointerdown, touchEvent pointermove 2 9 0 7 30),
            (threePointers pointermove 9 30 pointerup, touchEvent pointerup 3 (21/2) 0 7 40),
            (twoPointers pointermove 9 50, touchEvent pointermove 2 9 0 7 50)]))
      = [Some 1, Some 7, Some (7881299347898367 / 1125899906842624)]"
  using pinch_ends_below_minimum_run pinch_rebase_rounds_run by blast

lemma pinch_down_ignores_minPointers:
  "(snd (pinch_onPointerDown ext g reg el relevantPointers event) \<noteq> [])
     = (length relevantPointers \<ge> 2 \<and> \<not> isActive g reg)"
  by (simp add: pinch_onPointerDown_def Let_def emitPinchEvent_def)

text \<open>
  C8. The code activates on \<^verbatim>\<open>relevantPointers.length >= 2\<close>, whatever \<^verbatim>\<open>minPointers\<close>
  is: a pinch configured with \<^verbatim>\<open>minPointers = 3\<close> emits its start event, and is
  registered as active, as soon as two touches are down.
\<close>

theorem pinch_starts_below_configured_minimum:
  "map eventPhase (dispatched (world (system_run twoFingersDown
       (systemOf [(11, PinchObject (pinchOn 11 ''pinch'' 3 [] 7))])))) = [Start]
   \<and> length (PointerManager.pointers (manager (system_run twoFingersDown
       (systemOf [(11, PinchObject (pinchOn 11 ''pinch'' 3 [] 7))])))) = 2
   \<and> isGestureActive (registry (world (system_run twoFingersDown
       (systemOf [(11, PinchObject (pinchOn 11 ''pinch'' 3 [] 7))]))))
       7 \<lparr>ident = 11, name = ''pinch''\<rparr>"
  by (simp add: run_defs pinch_defs sqrt_10000)

section \<open>Exclusion\<close>

lemma set_insertIndexed: "set (insertIndexed n k v obj) = insert (k, v) (set obj)"
proof (induction obj)
  case Nil
  show ?case by simp
next
  case (Cons p obj)
  obtain k1 v1 where p: "p = (k1, v1)" by (cases p)
  show ?case
    by (cases "arrayIndex k1") (auto simp: p Cons.IH)
qed

lemma update_all_true: "list_all snd obj \<Longrightarrow> list_all snd (AList.update k True obj)"
  by (induction obj) auto

lemma objectSet_all_true:
  assumes "list_all snd obj"
  shows "list_all snd (objectSet obj k True)"
proof (cases "k = ''__proto__''")
  case True
  with assms show ?thesis by (simp add: objectSet_def)
next
  case False
  show ?thesis
  proof (cases "map_of obj k")
    case (Some b)
    with False assms show ?thesis by (simp add: objectSet_def update_all_true)
  next
    case None
    with False assms show ?thesis
      by (cases "arrayIndex k") (auto simp: objectSet_def list_all_iff set_insertIndexed)
  qed
qed

lemma objectSet_keys:
  "fst ` set obj \<subseteq> fst ` set (objectSet obj k True)"
  "k \<noteq> ''__proto__'' \<Longrightarrow> k \<in> fst ` set (objectSet obj k True)"
proof -
  have "set (map fst (AList.update k True obj)) = insert k (set (map fst obj))"
    by (auto simp: update_keys)
  then have upd: "fst ` set (AList.update k True obj) = insert k (fst ` set obj)"
    by simp
  show "fst ` set obj \<subseteq> fst ` set (objectSet obj k True)"
    by (cases "arrayIndex k") (auto simp: objectSet_def upd set_insertIndexed)
  show "k \<in> fst ` set (objectSet obj k True)" if "k \<noteq> ''__proto__''"
    using that by (cases "arrayIndex k") (auto simp: objectSet_def upd set_insertIndexed)
qed

lemma truthy_if_key:
  assumes "list_all snd obj" "k \<in> fst ` set obj"
  shows "objectGetTruthy obj k"
proof -
  from assms(2) obtain b where "map_of obj k = Some b"
    by (metis map_of_eq_None_iff not_Some_eq)
  moreover from this have "(k, b) \<in> set obj" by (rule map_of_SomeD)
  with assms(1) have b by (auto simp: list_all_iff)
  ultimately show ?thesis by (simp add: objectGetTruthy_def)
qed

lemma fold_objectSet_inv:
  "list_all snd acc \<Longrightarrow>
     list_all snd (fold (\<lambda>entry acc. objectSet acc (name (gesture entry)) True) es acc)
     \<and> fst ` set acc \<union> ((\<lambda>entry. name (gesture entry)) ` set es - {''__proto__''})
         \<subseteq> fst ` set (fold (\<lambda>entry acc. objectSet acc (name (gesture entry)) True) es acc)"
proof (induction es arbitrary: acc)
  case Nil
  then show ?case by simp
next
  case (Cons e es)
  let ?acc = "objectSet acc (name (gesture e)) True"
  have a: "list_all snd ?acc" using Cons.prems by (rule objectSet_all_true)
  from Cons.IH [OF a] objectSet_keys [where obj = acc and k = "name (gesture e)"]
  show ?case by auto
qed

lemma fold_objectSet_names:
  assumes "n \<in> (\<lambda>entry. name (gesture entry)) ` set es"
  shows "objectGetTruthy (fold (\<lambda>entry acc. objectSet acc (name (gesture entry)) True) es []) n"
proof (cases "n = ''__proto__''")
  case True
  have "list_all snd (fold (\<lambda>entry acc. objectSet acc (name (gesture entry)) True) es [])"
    using fold_objectSet_inv [of "[]" es] by simp
  then have "map_of (fold (\<lambda>entry acc. objectSet acc (name (gesture entry)) True) es []) n \<noteq> Some False"
    unfolding list_all_iff using map_of_SomeD by fastforce
  with True show ?thesis
    by (cases "map_of (fold (\<lambda>entry acc. objectSet acc (name (gesture entry)) True) es []) n")
       (auto simp: objectGetTruthy_def objectPrototypeKeys_def)
next
  case False
  with assms fold_objectSet_inv [of "[]" es] show ?thesis
    by (intro truthy_if_key) auto
qed

text \<open>
  When a listed name has an entry in the registry, the check the code makes succeeds.
  (The converse fails for a listed name that \<^verbatim>\<open>Object.prototype\<close> defines.)
\<close>

lemma listedActive_shouldPrevent:
  "listedActive g reg \<Longrightarrow> shouldPreventGesture g reg (PinchGesture.element g)"
  by (cases "reg (PinchGesture.element g)")
     (auto simp: shouldPreventGesture_def listedActive_def getActiveGestures_def entriesOf_def
        list_ex_iff Let_def intro!: fold_objectSet_names)

lemma entriesOf_empty: "entriesOf Map.empty el = []"
  by (simp add: entriesOf_def)

lemma getTarget_cases:
  "pinch_getTargetElement ext g event = None
   \<or> pinch_getTargetElement ext g event = Some (PinchGesture.element g)"
  by (simp add: pinch_getTargetElement_def)

lemma suppressed_step:
  assumes "listedActive g reg"
  shows "pinch_handlePointerEvent ext g reg ptrMap event =
           (if pinch_getTargetElement ext g event = None \<or> \<not> isActive g reg then ((g, reg), [])
            else (pinch_resetState g reg,
                  emitPinchEvent ext g reg (PinchGesture.element g) Cancel (map snd ptrMap) event))"
  using listedActive_shouldPrevent [OF assms] getTarget_cases [of ext g event]
  by (auto simp: pinch_handlePointerEvent_def Let_def)

lemma resetState_inactive:
  "\<not> isActive (fst (pinch_resetState g reg)) (snd (pinch_resetState g reg))"
  by (simp add: pinch_resetState_def isActive_def set_isActive_def thisRef_def
        unregister_not_active)

lemma emit_phase:
  "map eventPhase (emitPinchEvent ext g reg el ph ptrs event) = [ph]"
  by (simp add: emitPinchEvent_def)

lemma inactive_suppressed_run:
  "suppressedAlong ext (g, reg) steps \<Longrightarrow> \<not> isActive g reg \<Longrightarrow>
     snd (pinch_run ext (g, reg) steps) = []
     \<and> fst (fst (pinch_run ext (g, reg) steps)) = g
     \<and> \<not> isActive g (snd (fst (pinch_run ext (g, reg) steps)))"
proof (induction steps arbitrary: reg)
  case Nil
  then show ?case by simp
next
  case (Cons step rest)
  obtain others ptrMap event where step: "step = (others, ptrMap, event)"
    by (cases step) auto
  from Cons.prems step have sup: "listedActive g (others reg)"
    and same: "isActive g (others reg) \<longrightarrow> isActive g reg" by simp_all
  with Cons.prems have inact: "\<not> isActive g (others reg)" by blast
  have h: "pinch_handlePointerEvent ext g (others reg) ptrMap event = ((g, others reg), [])"
    using suppressed_step [OF sup, of ext ptrMap event] inact by auto
  from Cons.prems step h have "suppressedAlong ext (g, others reg) rest" by simp
  from Cons.IH [OF this inact] show ?case by (simp add: step h split: prod.splits)
qed

lemma suppressed_run_phases:
  "suppressedAlong ext (g, reg) steps \<Longrightarrow>
     map eventPhase (snd (pinch_run ext (g, reg) steps)) = []
     \<or> map eventPhase (snd (pinch_run ext (g, reg) steps)) = [Cancel]"
proof (induction steps arbitrary: g reg)
  case Nil
  then show ?case by simp
next
  case (Cons step rest)
  obtain others ptrMap event where step: "step = (others, ptrMap, event)"
    by (cases step) auto
  from Cons.prems step have sup: "listedActive g (others reg)"
    and rest: "suppressedAlong ext
                 (fst (pinch_handlePointerEvent ext g (others reg) ptrMap event)) rest"
    by simp_all
  show ?case
  proof (cases "pinch_getTargetElement ext g event = None \<or> \<not> isActive g (others reg)")
    case True
    then have h: "pinch_handlePointerEvent ext g (others reg) ptrMap event = ((g, others reg), [])"
      using suppressed_step [OF sup, of ext ptrMap event] by auto
    with rest have "suppressedAlong ext (g, others reg) rest" by simp
    from Cons.IH [OF this] show ?thesis by (simp add: step h split: prod.splits)
  next
    case False
    let ?s = "pinch_resetState g (others reg)"
    have h: "pinch_handlePointerEvent ext g (others reg) ptrMap event =
               (?s, emitPinchEvent ext g (others reg) (PinchGesture.element g) Cancel
                      (map snd ptrMap) event)"
      using suppressed_step [OF sup, of ext ptrMap event] False by auto
    with rest have "suppressedAlong ext (fst ?s, snd ?s) rest" by simp
    from inactive_suppressed_run [OF this resetState_inactive]
    have "snd (pinch_run ext ?s rest) = []" by simp
    then show ?thesis by (auto simp add: step h emit_phase split: prod.splits)
  qed
qed

text \<open>
  The pinch variant honours its \<^verbatim>\<open>preventIf\<close> list. Along every sequence of notifications
  during which a listed gesture is active on the target: an instance that is inactive
  stays inactive, its state is untouched and it emits nothing; whatever its state at the
  beginning, it emits nothing at all or one single cancel event. And an instance that is
  active when a listed gesture is active emits, at the next notification whose event lies
  within its target, exactly one cancel event, after which it is inactive and its state
  is reset.
\<close>

lemma pinch_preventIf_suppression:
  "(suppressedAlong ext (g, reg) steps \<and> \<not> isActive g reg \<longrightarrow>
      snd (pinch_run ext (g, reg) steps) = []
      \<and> fst (fst (pinch_run ext (g, reg) steps)) = g
      \<and> \<not> isActive g (snd (fst (pinch_run ext (g, reg) steps))))
   \<and> (suppressedAlong ext (g, reg) steps \<longrightarrow>
        map eventPhase (snd (pinch_run ext (g, reg) steps)) = []
        \<or> map eventPhase (snd (pinch_run ext (g, reg) steps)) = [Cancel])
   \<and> (listedActive g reg \<and> isActive g reg \<and> pinch_getTargetElement ext g event \<noteq> None \<longrightarrow>
        map eventPhase (snd (pinch_handlePointerEvent ext g reg ptrMap event)) = [Cancel]
        \<and> \<not> isActive (fst (fst (pinch_handlePointerEvent ext g reg ptrMap event)))
                      (snd (fst (pinch_handlePointerEvent ext g reg ptrMap event)))
        \<and> PinchGesture.state (fst (fst (pinch_handlePointerEvent ext g reg ptrMap event)))
            = (PinchGesture.state g)\<lparr>startDistance := 0, lastDistance := 0, lastScale := 1,
                 lastTime := 0, PinchGestureState.velocity := 0\<rparr>)"
proof (intro conjI impI)
  assume a: "suppressedAlong ext (g, reg) steps \<and> \<not> isActive g reg"
  then have *: "snd (pinch_run ext (g, reg) steps) = []
     \<and> fst (fst (pinch_run ext (g, reg) steps)) = g
     \<and> \<not> isActive g (snd (fst (pinch_run ext (g, reg) steps)))"
    using inactive_suppressed_run by blast
  from * show "snd (pinch_run ext (g, reg) steps) = []" by blast
  from * show "fst (fst (pinch_run ext (g, reg) steps)) = g" by blast
  from * show "\<not> isActive g (snd (fst (pinch_run ext (g, reg) steps)))" by blast
next
  assume "suppressedAlong ext (g, reg) steps"
  then show "map eventPhase (snd (pinch_run ext (g, reg) steps)) = []
        \<or> map eventPhase (snd (pinch_run ext (g, reg) steps)) = [Cancel]"
    by (rule suppressed_run_phases)
next
  assume a: "listedActive g reg \<and> isActive g reg \<and> pinch_getTargetElement ext g event \<noteq> None"
  then have h: "pinch_handlePointerEvent ext g reg ptrMap event =
                  (pinch_resetState g reg,
                   emitPinchEvent ext g reg (PinchGesture.element g) Cancel (map snd ptrMap) event)"
    using suppressed_step [of g reg ext ptrMap event] by auto
  show "map eventPhase (snd (pinch_handlePointerEvent ext g reg ptrMap event)) = [Cancel]"
    by (simp add: h emit_phase)
  show "\<not> isActive (fst (fst (pinch_handlePointerEvent ext g reg ptrMap event)))
                      (snd (fst (pinch_handlePointerEvent ext g reg ptrMap event)))"
    using resetState_inactive [of g reg] by (simp add: h)
  show "PinchGesture.state (fst (fst (pinch_handlePointerEvent ext g reg ptrMap event)))
            = (PinchGesture.state g)\<lparr>startDistance := 0, lastDistance := 0, lastScale := 1,
                 lastTime := 0, PinchGestureState.velocity := 0\<rparr>"
    by (simp add: h pinch_resetState_def)
qed

text \<open>
  An instance of it: a pinch with \<^verbatim>\<open>preventIf: ['rotate']\<close> while a gesture named rotate
  is active on its element, first with the pinch inactive, then with the pinch active.
\<close>

lemma pinch_preventIf_suppression_example:
  "suppressedAlong specExternals (pinchOn 11 ''pinch'' 2 [''rotate''] 7, rotateActive)
     twoNotifications
   \<and> \<not> isActive (pinchOn 11 ''pinch'' 2 [''rotate''] 7) rotateActive
   \<and> snd (pinch_run specExternals (pinchOn 11 ''pinch'' 2 [''rotate''] 7, rotateActive)
            twoNotifications) = []
   \<and> listedActive (pinchOn 11 ''pinch'' 2 [''rotate''] 7)
        (registerActiveGesture rotateActive 7 \<lparr>ident = 11, name = ''pinch''\<rparr>)
   \<and> isActive (pinchOn 11 ''pinch'' 2 [''rotate''] 7)
        (registerActiveGesture rotateActive 7 \<lparr>ident = 11, name = ''pinch''\<rparr>)
   \<and> suppressedAlong specExternals
        (pinchOn 11 ''pinch'' 2 [''rotate''] 7,
         registerActiveGesture rotateActive 7 \<lparr>ident = 11, name = ''pinch''\<rparr>)
        twoNotifications
   \<and> map eventPhase
        (snd (pinch_run specExternals
           (pinchOn 11 ''pinch'' 2 [''rotate''] 7,
            registerActiveGesture rotateActive 7 \<lparr>ident = 11, name = ''pinch''\<rparr>)
           twoNotifications)) = [Cancel]
   \<and> map eventPhase
        (snd (pinch_handlePointerEvent specExternals (pinchOn 11 ''pinch'' 2 [''rotate''] 7)
           (registerActiveGesture rotateActive 7 \<lparr>ident = 11, name = ''pinch''\<rparr>)
           (twoPointers pointermove 150 20) (touchEvent pointermove 2 150 0 7 20))) = [Cancel]"
proof -
  let ?g = "pinchOn 11 ''pinch'' 2 [''rotate''] 7"
  let ?reg = "registerActiveGesture rotateActive 7 \<lparr>ident = 11, name = ''pinch''\<rparr>"
  have idle: "\<not> isActive ?g rotateActive"
    by (simp add: isActive_def isGestureActive_def rotateActive_def registerActiveGesture_def
          thisRef_def pinchOn_def sameGesture_def)
  have listed0: "listedActive ?g rotateActive"
    by (simp add: listedActive_def rotateActive_def entriesOf_register entriesOf_empty pinchOn_def)
  have sup0: "suppressedAlong specExternals (?g, rotateActive) twoNotifications"
    using listed0 idle
    by (simp add: twoNotifications_def suppressed_step)
  have act: "isActive ?g ?reg"
    by (simp add: isActive_def thisRef_def pinchOn_def register_active)
  have listed: "listedActive ?g ?reg"
    by (simp add: listedActive_def rotateActive_def entriesOf_register entriesOf_empty pinchOn_def)
  have tgt: "pinch_getTargetElement specExternals ?g (touchEvent pointermove 2 150 0 7 20) \<noteq> None"
    by (simp add: pinch_getTargetElement_def pinchOn_def touchEvent_def)
  have first: "pinch_handlePointerEvent specExternals ?g ?reg (twoPointers pointermove 150 20)
                 (touchEvent pointermove 2 150 0 7 20)
               = (pinch_resetState ?g ?reg,
                  emitPinchEvent specExternals ?g ?reg (PinchGesture.element ?g) Cancel
                    (map snd (twoPointers pointermove 150 20))
                    (touchEvent pointermove 2 150 0 7 20))"
    using suppressed_step [OF listed, of specExternals "twoPointers pointermove 150 20"
                             "touchEvent pointermove 2 150 0 7 20"] tgt act
    by auto
  let ?g1 = "?g\<lparr>PinchGesture.state := (PinchGesture.state ?g)
                \<lparr>startDistance := 0, lastDistance := 0, lastScale := 1, lastTime := 0,
                 PinchGestureState.velocity := 0\<rparr>\<rparr>"
  have after: "pinch_resetState ?g ?reg = (?g1, rotateActive)"
    by (simp add: pinch_resetState_def set_isActive_def thisRef_def pinchOn_def
          rotateActive_def registerActiveGesture_def unregisterActiveGesture_def sameGesture_def)
  have listed1: "listedActive ?g1 rotateActive"
    using listed0 by (simp add: listedActive_def)
  have idle1: "\<not> isActive ?g1 rotateActive"
    using idle by (simp add: isActive_state_irrelevant)
  have sup: "suppressedAlong specExternals (?g, ?reg) twoNotifications"
    using listed act listed1 idle1
    by (simp add: twoNotifications_def first after)
  have step1: "map eventPhase (snd (pinch_handlePointerEvent specExternals ?g ?reg
                 (twoPointers pointermove 150 20) (touchEvent pointermove 2 150 0 7 20))) = [Cancel]"
    using pinch_preventIf_suppression [of specExternals ?g ?reg twoNotifications
            "touchEvent pointermove 2 150 0 7 20" "twoPointers pointermove 150 20"]
          listed act tgt
    by blast
  have silent: "snd (pinch_run specExternals (?g, rotateActive) twoNotifications) = []"
    using pinch_preventIf_suppression [of specExternals ?g rotateActive twoNotifications] sup0 idle
    by blast
  have tail: "pinch_handlePointerEvent specExternals ?g1 rotateActive
                (twoPointers pointerdown 150 30) (touchEvent pointerdown 2 150 0 7 30)
              = ((?g1, rotateActive), [])"
    using suppressed_step [OF listed1, of specExternals "twoPointers pointerdown 150 30"
                             "touchEvent pointerdown 2 150 0 7 30"] idle1
    by auto
  have run: "map eventPhase (snd (pinch_run specExternals (?g, ?reg) twoNotifications)) = [Cancel]"
    by (simp add: twoNotifications_def first after tail emit_phase)
  from sup0 idle silent listed act sup run step1 show ?thesis by blast
qed

lemma sqrt_4900: "sqrt 4900 = 70"
  by (rule real_sqrt_unique) simp_all

text \<open>
  C4. The pan variant never looks at its \<^verbatim>\<open>preventIf\<close> list. A pan configured with
  \<^verbatim>\<open>preventIf: ['pinch']\<close> and a pinch are bound to element 7. Two touches go down: the
  pinch is active, the pan is not. Pointer 1 then moves by 40: the pan leaves the inactive
  state and emits its start event while the pinch is still active on the same target.
\<close>

theorem pan_ignores_preventIf:
  "map_option active (panStateOf (world (system_run twoFingersDown
       (systemOf [(21, PanObject ((panOn 21 ''pan'' 10 1 2 7)\<lparr>preventIf := [''pinch'']\<rparr>)),
                  (11, PinchObject (pinchOn 11 ''pinch'' 2 [] 7))]))) 21) = Some False
   \<and> isGestureActive (registry (world (system_run twoFingersDown
       (systemOf [(21, PanObject ((panOn 21 ''pan'' 10 1 2 7)\<lparr>preventIf := [''pinch'']\<rparr>)),
                  (11, PinchObject (pinchOn 11 ''pinch'' 2 [] 7))])))) 7 \<lparr>ident = 11, name = ''pinch''\<rparr>
   \<and> map eventName (dispatched (world (system_run
       (twoFingersDown @ [Pointer (touchEvent pointermove 1 40 0 7 20)])
       (systemOf [(21, PanObject ((panOn 21 ''pan'' 10 1 2 7)\<lparr>preventIf := [''pinch'']\<rparr>)),
                  (11, PinchObject (pinchOn 11 ''pinch'' 2 [] 7))]))))
     = [''pinchStart'', ''panStart'', ''pinch'']
   \<and> map_option active (panStateOf (world (system_run
       (twoFingersDown @ [Pointer (touchEvent pointermove 1 40 0 7 20)])
       (systemOf [(21, PanObject ((panOn 21 ''pan'' 10 1 2 7)\<lparr>preventIf := [''pinch'']\<rparr>)),
                  (11, PinchObject (pinchOn 11 ''pinch'' 2 [] 7))]))) 21) = Some True
   \<and> isGestureActive (registry (world (system_run
       (twoFingersDown @ [Pointer (touchEvent pointermove 1 40 0 7 20)])
       (systemOf [(21, PanObject ((panOn 21 ''pan'' 10 1 2 7)\<lparr>preventIf := [''pinch'']\<rparr>)),
                  (11, PinchObject (pinchOn 11 ''pinch'' 2 [] 7))])))) 7 \<lparr>ident = 11, name = ''pinch''\<rparr>"
  by (simp add: run_defs pan_defs pinch_defs sqrt_10000 sqrt_3600 sqrt_4900 panStateOf_def)

section \<open>Pan\<close>

lemma pan_inv_initial: "PanGesture.state g = pan_initialState \<Longrightarrow> pan_inv g"
  by (simp add: pan_inv_def pan_initialState_def)

lemma pan_inv_step:
  "pan_inv g \<Longrightarrow> pan_inv (fst (pan_handlePointerEvent ext g ptrMap event))"
  by (auto simp: pan_inv_def pan_handlePointerEvent_def pan_forceReset_def pan_cancel_def
        pan_onPointerDown_def pan_onPointerMove_def pan_onPointerUp_def pan_resetState_def
        pan_resetActiveState_def pan_initialState_def Let_def
        split: option.splits prod.splits bool.splits EventType.splits if_splits)

lemma pan_never_touches_registry:
  "objects w oid = Some (PanObject g) \<Longrightarrow>
     registry (boundHandler ext oid ptrMap event w) = registry w"
  by (simp add: boundHandler_def split: prod.splits)

lemma pan_partial_lift_changes_nothing:
  "active (PanGesture.state g) \<Longrightarrow> movementThresholdReached (PanGesture.state g) \<Longrightarrow>
   stillPressed relevantPointers \<noteq> [] \<Longrightarrow>
     pan_onPointerUp ext g el relevantPointers event = (g, [])"
  by (simp add: pan_onPointerUp_def Let_def)

text \<open>
  C5. The pan variant keeps its own \<^verbatim>\<open>state.active\<close> flag and never calls the registry:
  a pan with threshold 10 that has crossed the threshold and has emitted a start and an
  ongoing event considers itself active, while the registry holds no record for it and
  reports no active gesture on its element.
\<close>

theorem pan_active_not_registered:
  "map eventName (dispatched (world (system_run
       [Pointer (touchEvent pointerdown 1 0 0 7 0), Pointer (touchEvent pointermove 1 20 0 7 10),
        Pointer (touchEvent pointermove 1 30 0 7 20)]
       (systemOf [(21, PanObject (panOn 21 ''pan'' 10 1 1 7))])))) = [''panStart'', ''pan'']
   \<and> map_option active (panStateOf (world (system_run
       [Pointer (touchEvent pointerdown 1 0 0 7 0), Pointer (touchEvent pointermove 1 20 0 7 10),
        Pointer (touchEvent pointermove 1 30 0 7 20)]
       (systemOf [(21, PanObject (panOn 21 ''pan'' 10 1 1 7))]))) 21) = Some True
   \<and> \<not> isGestureActive (registry (world (system_run
       [Pointer (touchEvent pointerdown 1 0 0 7 0), Pointer (touchEvent pointermove 1 20 0 7 10),
        Pointer (touchEvent pointermove 1 30 0 7 20)]
       (systemOf [(21, PanObject (panOn 21 ''pan'' 10 1 1 7))])))) 7 \<lparr>ident = 21, name = ''pan''\<rparr>
   \<and> getActiveGestures (registry (world (system_run
       [Pointer (touchEvent pointerdown 1 0 0 7 0), Pointer (touchEvent pointermove 1 20 0 7 10),
        Pointer (touchEvent pointermove 1 30 0 7 20)]
       (systemOf [(21, PanObject (panOn 21 ''pan'' 10 1 1 7))])))) 7 = []"
  by (simp add: run_defs pan_defs sqrt_400 panStateOf_def isGestureActive_def
        getActiveGestures_def one_enat_def)

text \<open>
  C7. The pan variant does nothing on a \<^verbatim>\<open>pointerup\<close> that leaves a pointer pressed: the
  start centroid is not rebased. A pan (one to two pointers) is started by pointer 1
  moving to \<open>(20, 0)\<close>; pointer 2 goes down at \<open>(100, 0)\<close>, and the next event reports
  \<open>deltaX = 60\<close>. Pointer 2 is lifted; pointer 1 then reports a move without having changed
  its position, and the event carries \<open>deltaX = 20\<close>: the delta jumps by 40 with no motion
  of the remaining pointer.
\<close>

theorem pan_delta_jumps_on_partial_lift:
  "map panDeltaX (dispatched (world (system_run
       [Pointer (touchEvent pointerdown 1 0 0 7 0), Pointer (touchEvent pointermove 1 20 0 7 10),
        Pointer (touchEvent pointerdown 2 100 0 7 20), Pointer (touchEvent pointermove 1 20 0 7 30),
        Pointer (touchEvent pointerup 2 100 0 7 40), Pointer (touchEvent pointermove 1 20 0 7 50)]
       (systemOf [(21, PanObject (panOn 21 ''pan'' 10 1 2 7))]))))
     = [Some 20, Some 60, Some 20]
   \<and> map eventPhase (dispatched (world (system_run
       [Pointer (touchEvent pointerdown 1 0 0 7 0), Pointer (touchEvent pointermove 1 20 0 7 10),
        Pointer (touchEvent pointerdown 2 100 0 7 20), Pointer (touchEvent pointermove 1 20 0 7 30),
        Pointer (touchEvent pointerup 2 100 0 7 40), Pointer (touchEvent pointermove 1 20 0 7 50)]
       (systemOf [(21, PanObject (panOn 21 ''pan'' 10 1 2 7))]))))
     = [Start, Ongoing, Ongoing]"
  by (simp add: run_defs pan_defs sqrt_400 sqrt_3600 panDeltaX_def)

section \<open>Interruption\<close>

text \<open>
  The synthetic cancel event of an interruption was never dispatched, so it has no
  target: the pinch variant, which has no branch for \<^verbatim>\<open>forceReset\<close>, drops it at its
  target check, whatever its state.
\<close>

lemma pinch_ignores_interrupt:
  "PointerFields.target event = None \<Longrightarrow>
     pinch_handlePointerEvent ext g reg ptrMap event = ((g, reg), [])"
  by (simp add: pinch_handlePointerEvent_def pinch_getTargetElement_def containsTarget_def)

text \<open>
  The pan variant answers it with exactly one cancel event and leaves the active state,
  whatever the pointer map holds.
\<close>

lemma pan_forceReset_cancels_once:
  assumes "forceReset event" "PanGesture.element g = Some el"
      and "active (PanGesture.state g)" "pan_inv g"
  shows "map eventPhase (snd (pan_handlePointerEvent ext g ptrMap event)) = [Cancel]
       \<and> \<not> active (PanGesture.state (fst (pan_handlePointerEvent ext g ptrMap event)))"
  using assms
  by (auto simp: pan_inv_def pan_handlePointerEvent_def pan_forceReset_def emitPanEvent_def
        Let_def pan_resetActiveState_def)

lemma sqrt_6400: "sqrt 6400 = 80"
  by (rule real_sqrt_unique) simp_all

text \<open>
  C1. A pan and a pinch are bound to element 7. Pointer 1 goes down and moves (the pan
  starts), pointer 2 goes down (the pinch starts): both gestures are active. An
  interruption then clears the pointer set; the pan emits its cancel event, the pinch
  emits nothing and is still registered as active afterwards.
\<close>

theorem interrupt_cancels_pan_but_not_pinch:
  "map_option active (panStateOf (world (system_run
       [Pointer (touchEvent pointerdown 1 0 0 7 0), Pointer (touchEvent pointermove 1 20 0 7 10),
        Pointer (touchEvent pointerdown 2 100 0 7 20)]
       (systemOf [(21, PanObject (panOn 21 ''pan'' 10 1 2 7)),
                  (11, PinchObject (pinchOn 11 ''pinch'' 2 [] 7))]))) 21) = Some True
   \<and> isGestureActive (registry (world (system_run
       [Pointer (touchEvent pointerdown 1 0 0 7 0), Pointer (touchEvent pointermove 1 20 0 7 10),
        Pointer (touchEvent pointerdown 2 100 0 7 20)]
       (systemOf [(21, PanObject (panOn 21 ''pan'' 10 1 2 7)),
                  (11, PinchObject (pinchOn 11 ''pinch'' 2 [] 7))])))) 7 \<lparr>ident = 11, name = ''pinch''\<rparr>
   \<and> map eventName (dispatched (world (system_run
       [Pointer (touchEvent pointerdown 1 0 0 7 0), Pointer (touchEvent pointermove 1 20 0 7 10),
        Pointer (touchEvent pointerdown 2 100 0 7 20), Interrupt 50]
       (systemOf [(21, PanObject (panOn 21 ''pan'' 10 1 2 7)),
                  (11, PinchObject (pinchOn 11 ''pinch'' 2 [] 7))]))))
     = [''panStart'', ''pinchStart'', ''panCancel'']
   \<and> isGestureActive (registry (world (system_run
       [Pointer (touchEvent pointerdown 1 0 0 7 0), Pointer (touchEvent pointermove 1 20 0 7 10),
        Pointer (touchEvent pointerdown 2 100 0 7 20), Interrupt 50]
       (systemOf [(21, PanObject (panOn 21 ''pan'' 10 1 2 7)),
                  (11, PinchObject (pinchOn 11 ''pinch'' 2 [] 7))])))) 7 \<lparr>ident = 11, name = ''pinch''\<rparr>
   \<and> PointerManager.pointers (manager (system_run
       [Pointer (touchEvent pointerdown 1 0 0 7 0), Pointer (touchEvent pointermove 1 20 0 7 10),
        Pointer (touchEvent pointerdown 2 100 0 7 20), Interrupt 50]
       (systemOf [(21, PanObject (panOn 21 ''pan'' 10 1 2 7)),
                  (11, PinchObject (pinchOn 11 ''pinch'' 2 [] 7))]))) = []"
  by (simp add: run_defs pan_defs pinch_defs sqrt_400 sqrt_6400 panStateOf_def)

section \<open>Unregistering a gesture\<close>

lemma unregisterElement_clears_target:
  "unregisterElement gm w gestureName el = (True, gm1, w1) \<Longrightarrow> registry w1 el = None"
  by (auto simp: unregisterElement_def registry_unregisterElement_def Let_def
           split: option.splits if_splits)

text \<open>
  C9. Two pinch-type gestures, named pinch and zoom, are registered on element 7 and both
  are active. Unregistering pinch from the element succeeds and leaves zoom registered
  with the manager, but the registry has lost the record of zoom as well: the call
  clears every record of the element.
\<close>

theorem unregister_one_clears_all_records:
  "getActiveGestures (registry (world (system_run twoFingersDown
       (systemOf [(11, PinchObject (pinchOn 11 ''pinch'' 2 [] 7)),
                  (12, PinchObject (pinchOn 12 ''zoom'' 2 [] 7))])))) 7
     = [(''pinch'', True), (''zoom'', True)]
   \<and> isGestureActive (registry (world (system_run twoFingersDown
       (systemOf [(11, PinchObject (pinchOn 11 ''pinch'' 2 [] 7)),
                  (12, PinchObject (pinchOn 12 ''zoom'' 2 [] 7))])))) 7 \<lparr>ident = 12, name = ''zoom''\<rparr>
   \<and> fst (unregisterElement
        \<lparr>elementGestureMap = [7 \<mapsto> [(''pinch'', 11), (''zoom'', 12)]]\<rparr>
        (world (system_run twoFingersDown
          (systemOf [(11, PinchObject (pinchOn 11 ''pinch'' 2 [] 7)),
                     (12, PinchObject (pinchOn 12 ''zoom'' 2 [] 7))])))
        ''pinch'' 7)
   \<and> elementGestureMap (fst (snd (unregisterElement
        \<lparr>elementGestureMap = [7 \<mapsto> [(''pinch'', 11), (''zoom'', 12)]]\<rparr>
        (world (system_run twoFingersDown
          (systemOf [(11, PinchObject (pinchOn 11 ''pinch'' 2 [] 7)),
                     (12, PinchObject (pinchOn 12 ''zoom'' 2 [] 7))])))
        ''pinch'' 7))) 7 = Some [(''zoom'', 12)]
   \<and> \<not> isGestureActive (registry (snd (snd (unregisterElement
        \<lparr>elementGestureMap = [7 \<mapsto> [(''pinch'', 11), (''zoom'', 12)]]\<rparr>
        (world (system_run twoFingersDown
          (systemOf [(11, PinchObject (pinchOn 11 ''pinch'' 2 [] 7)),
                     (12, PinchObject (pinchOn 12 ''zoom'' 2 [] 7))])))
        ''pinch'' 7)))) 7 \<lparr>ident = 12, name = ''zoom''\<rparr>"
  by (simp add: run_defs pinch_defs sqrt_10000 unregisterElement_def destroyObject_def
        pinch_destroy_def registry_unregisterElement_def AList.delete_eq)

end
